theory Spec2Isabelle
  imports Main
begin

section \<open>The wallpaper page: history and navigation\<close>

text \<open>
  The page script keeps two module-level variables, \<^verbatim>\<open>wallpaperHistory\<close> (an array of
  blob URLs) and \<^verbatim>\<open>currentIndex\<close> (a number, initially -1). Three handlers change
  them: the \<^verbatim>\<open>success\<close> callback inside \<^verbatim>\<open>setRandomWallpaper\<close>, \<^verbatim>\<open>goBack\<close> and
  \<^verbatim>\<open>goForward\<close>. JavaScript runs each handler to completion, so a run of the page is a
  sequence of these handlers applied to the state. The state also records the
  \<^verbatim>\<open>src\<close> last handed to \<^verbatim>\<open>setAttribute(image, ...)\<close> and the number of
  \<^verbatim>\<open>network.get\<close> calls issued.
\<close>

record page_state =
  wallpaperHistory :: "string list"
  currentIndex :: int
  image_src :: "string option"
  requests_issued :: nat

definition initial_page :: page_state where
  "initial_page =
     \<lparr>wallpaperHistory = [], currentIndex = - 1, image_src = None, requests_issued = 0\<rparr>"

text \<open>
  \<^verbatim>\<open>arr.splice(start)\<close> with a single argument removes every element from \<^verbatim>\<open>start\<close>
  on; a negative \<^verbatim>\<open>start\<close> counts from the end and is clamped at 0, a \<^verbatim>\<open>start\<close>
  beyond the length is clamped at the length.
\<close>

definition splice_from :: "'a list \<Rightarrow> int \<Rightarrow> 'a list" where
  "splice_from xs start =
     (let len = int (length xs);
          s = (if start < 0 then max (len + start) 0 else min start len)
      in take (nat s) xs)"

text \<open>\<^verbatim>\<open>arr[i]\<close>: \<^verbatim>\<open>undefined\<close> (here \<open>None\<close>) outside the array.\<close>

definition js_index :: "'a list \<Rightarrow> int \<Rightarrow> 'a option" where
  "js_index xs i = (if 0 \<le> i \<and> i < int (length xs) then Some (xs ! nat i) else None)"

text \<open>The \<^verbatim>\<open>success\<close> callback of \<^verbatim>\<open>setRandomWallpaper\<close>, given the blob URL created.\<close>

definition fetch_success :: "string \<Rightarrow> page_state \<Rightarrow> page_state" where
  "fetch_success blobUrl s =
     (let h = splice_from (wallpaperHistory s) (currentIndex s + 1)
      in s\<lparr>wallpaperHistory := h @ [blobUrl],
           currentIndex := currentIndex s + 1,
           image_src := Some blobUrl\<rparr>)"

definition setRandomWallpaper :: "page_state \<Rightarrow> page_state" where
  "setRandomWallpaper s = s\<lparr>requests_issued := Suc (requests_issued s)\<rparr>"

definition goBack :: "page_state \<Rightarrow> page_state" where
  "goBack s =
     (if currentIndex s > 0
      then (let i = currentIndex s - 1
            in s\<lparr>currentIndex := i, image_src := js_index (wallpaperHistory s) i\<rparr>)
      else s)"

definition goForward :: "page_state \<Rightarrow> page_state" where
  "goForward s =
     (if currentIndex s < int (length (wallpaperHistory s)) - 1
      then (let i = currentIndex s + 1
            in s\<lparr>currentIndex := i, image_src := js_index (wallpaperHistory s) i\<rparr>)
      else setRandomWallpaper s)"

datatype page_event = BackClick | ForwardClick | FetchSuccess string

fun page_step :: "page_state \<Rightarrow> page_event \<Rightarrow> page_state" where
  "page_step s BackClick = goBack s"
| "page_step s ForwardClick = goForward s"
| "page_step s (FetchSuccess u) = fetch_success u s"

definition run_page :: "page_event list \<Rightarrow> page_state" where
  "run_page evs = foldl page_step initial_page evs"

definition index_in_range :: "page_state \<Rightarrow> bool" where
  "index_in_range s \<longleftrightarrow>
     - 1 \<le> currentIndex s \<and> currentIndex s \<le> int (length (wallpaperHistory s)) - 1"

section \<open>The DOM helper \<^verbatim>\<open>setAttribute\<close>\<close>

text \<open>
  \<^verbatim>\<open>setAttribute(element, attribute, options = {})\<close> of \<^verbatim>\<open>@butility/dom\<close>. JavaScript
  exceptions are values here: every statement that can throw yields a completion, which
  is normal, an early \<^verbatim>\<open>return\<close>, or a throw, and each completion carries the state
  reached, since effects made before a throw stay.
\<close>

datatype js_error =
  TypeError string | Error string | DOMException string | SyntaxError string | Thrown string

datatype console_entry = Logged string | LoggedError js_error

text \<open>
  The first argument either passes \<^verbatim>\<open>instanceof HTMLElement\<close> or does not. The second
  argument is an object with its own enumerable entries in order, or \<^verbatim>\<open>null\<close> (whose
  \<^verbatim>\<open>typeof\<close> is \<^verbatim>\<open>"object"\<close> too), or a value whose \<^verbatim>\<open>typeof\<close> is something else.
\<close>

datatype target = HTMLElement | NotAnElement

datatype 'v attribute_arg = AttrObject "(string \<times> 'v) list" | AttrNull | AttrNotObject

text \<open>
  What the browser does underneath, each able to throw: \<^verbatim>\<open>element.setAttribute\<close>
  (an invalid name raises a DOMException), an assignment to \<^verbatim>\<open>element.dataset[key]\<close>,
  and the string conversion of a value inside a template literal (a Symbol raises a
  TypeError). \<open>None\<close> means the operation went through.
\<close>

record 'v platform =
  native_setAttribute :: "string \<Rightarrow> 'v \<Rightarrow> js_error option"
  native_dataset_set :: "string \<Rightarrow> 'v \<Rightarrow> js_error option"
  to_string :: "'v \<Rightarrow> js_error + string"

text \<open>
  The fields that the function destructures from an options object. \<open>None\<close> for
  \<^verbatim>\<open>onAttributeSet\<close> and \<^verbatim>\<open>onError\<close> selects the defaults of the source: a no-op and
  \<^verbatim>\<open>console.error\<close>. Callbacks can throw; a supplied \<^verbatim>\<open>onError\<close> that is not callable
  is a callback that throws a TypeError on every call.
\<close>

record 'v SetAttributesOptions =
  whitelist :: "string list option"
  blacklist :: "string list option"
  validate :: "(string \<Rightarrow> 'v \<Rightarrow> js_error + bool) option"
  transformValue :: "(string \<Rightarrow> 'v \<Rightarrow> js_error + 'v) option"
  addPrefix :: string
  onAttributeSet :: "((string \<times> 'v) list \<Rightarrow> js_error option) option"
  onError :: "(js_error \<Rightarrow> js_error option) option"
  log :: bool

record 'v dom_state =
  el_attributes :: "string \<rightharpoonup> 'v"
  el_dataset :: "string \<rightharpoonup> 'v"
  settedAttributes :: "(string \<times> 'v) list"
  console :: "console_entry list"
  reported :: "js_error list"
  notified :: "(string \<times> 'v) list list"

text \<open>
  The third argument as the caller passes it: left out (the default parameter \<^verbatim>\<open>{}\<close>
  applies), \<^verbatim>\<open>null\<close> (the default does not apply), or an object.
\<close>

datatype 'v options_arg =
  OptionsUndefined | OptionsNull | OptionsObject "'v SetAttributesOptions"

datatype 'v completion =
  Normal "'v dom_state" | Return "'v dom_state" | Throw js_error "'v dom_state"

fun returns_normally :: "'v completion \<Rightarrow> bool" where
  "returns_normally (Normal st) = True"
| "returns_normally (Return st) = True"
| "returns_normally (Throw e st) = False"

fun final_state :: "'v completion \<Rightarrow> 'v dom_state" where
  "final_state (Normal st) = st"
| "final_state (Return st) = st"
| "final_state (Throw e st) = st"

definition shouldSetAttribute :: "'v SetAttributesOptions \<Rightarrow> string \<Rightarrow> bool" where
  "shouldSetAttribute opts key =
     (case whitelist opts of
        Some w \<Rightarrow> if key \<notin> set w then False
                  else (case blacklist opts of Some b \<Rightarrow> key \<notin> set b | None \<Rightarrow> True)
      | None \<Rightarrow> (case blacklist opts of Some b \<Rightarrow> key \<notin> set b | None \<Rightarrow> True))"

definition console_log :: "string \<Rightarrow> 'v dom_state \<Rightarrow> 'v dom_state" where
  "console_log line st = st\<lparr>console := console st @ [Logged line]\<rparr>"

text \<open>\<^verbatim>\<open>onError(error)\<close>, the default being \<^verbatim>\<open>(error) => console.error(error)\<close>.\<close>

definition call_onError ::
  "'v SetAttributesOptions \<Rightarrow> js_error \<Rightarrow> 'v dom_state \<Rightarrow> 'v completion" where
  "call_onError opts e st =
     (let st1 = st\<lparr>reported := reported st @ [e]\<rparr>
      in case onError opts of
           None \<Rightarrow> Normal (st1\<lparr>console := console st1 @ [LoggedError e]\<rparr>)
         | Some f \<Rightarrow> (case f e of None \<Rightarrow> Normal st1 | Some x \<Rightarrow> Throw x st1))"

definition call_onAttributeSet ::
  "'v SetAttributesOptions \<Rightarrow> 'v dom_state \<Rightarrow> 'v completion" where
  "call_onAttributeSet opts st =
     (let st1 = st\<lparr>notified := notified st @ [settedAttributes st]\<rparr>
      in case onAttributeSet opts of
           None \<Rightarrow> Normal st1
         | Some f \<Rightarrow> (case f (settedAttributes st) of None \<Rightarrow> Normal st1 | Some x \<Rightarrow> Throw x st1))"

text \<open>\<^verbatim>\<open>Object.defineProperty(settedAttributes, name, {value, ..., configurable: true})\<close>.\<close>

fun defineProperty :: "(string \<times> 'v) list \<Rightarrow> string \<Rightarrow> 'v \<Rightarrow> (string \<times> 'v) list" where
  "defineProperty [] k v = [(k, v)]"
| "defineProperty ((k', v') # kvs) k v =
     (if k' = k then (k, v) # kvs else (k', v') # defineProperty kvs k v)"

text \<open>\<^verbatim>\<open>/^data-/.test(name)\<close>.\<close>

definition is_data_name :: "string \<Rightarrow> bool" where
  "is_data_name name \<longleftrightarrow> take 5 name = ''data-''"

text \<open>The logging of a value that was set: the template literal converts the value.\<close>

definition log_set :: "'v platform \<Rightarrow> bool \<Rightarrow> string \<Rightarrow> string \<Rightarrow> 'v \<Rightarrow> 'v dom_state \<Rightarrow> 'v completion" where
  "log_set pf lg label name v st =
     (if lg then
        (case to_string pf v of
           Inl e \<Rightarrow> Throw e st
         | Inr sv \<Rightarrow> Normal (console_log (label @ name @ '' = '' @ sv) st))
      else Normal st)"

text \<open>From the computed value on: set it on the element, log, record it.\<close>

definition store_value ::
  "'v platform \<Rightarrow> 'v SetAttributesOptions \<Rightarrow> string \<Rightarrow> 'v \<Rightarrow> 'v dom_state \<Rightarrow> 'v completion" where
  "store_value pf opts finalAttributeName transformedValue st =
     (let after_set =
        (if is_data_name finalAttributeName then
           (let dataKey = drop 5 finalAttributeName
            in case native_dataset_set pf dataKey transformedValue of
                 Some e \<Rightarrow> Throw e st
               | None \<Rightarrow>
                   log_set pf (log opts) ''Set data attribute: data-'' dataKey transformedValue
                     (st\<lparr>el_dataset := (el_dataset st)(dataKey \<mapsto> transformedValue)\<rparr>))
         else
           (case native_setAttribute pf finalAttributeName transformedValue of
              Some e \<Rightarrow> Throw e st
            | None \<Rightarrow>
                log_set pf (log opts) ''Set attribute: '' finalAttributeName transformedValue
                  (st\<lparr>el_attributes :=
                        (el_attributes st)(finalAttributeName \<mapsto> transformedValue)\<rparr>)))
      in case after_set of
           Normal st1 \<Rightarrow>
             Normal (st1\<lparr>settedAttributes :=
               defineProperty (settedAttributes st1) finalAttributeName transformedValue\<rparr>)
         | other \<Rightarrow> other)"

text \<open>The body of the inner \<^verbatim>\<open>try\<close> for one entry of the attribute object.\<close>

definition try_entry ::
  "'v platform \<Rightarrow> 'v SetAttributesOptions \<Rightarrow> string \<times> 'v \<Rightarrow> 'v dom_state \<Rightarrow> 'v completion" where
  "try_entry pf opts entry st =
     (let attributeName = fst entry; attributeValue = snd entry;
          finalAttributeName =
            (if addPrefix opts \<noteq> [] then addPrefix opts @ attributeName else attributeName)
      in if \<not> shouldSetAttribute opts finalAttributeName then
           Return (if log opts then console_log (''Skipping attribute: '' @ finalAttributeName) st
                   else st)
         else
           (case (case validate opts of
                    None \<Rightarrow> Inr True
                  | Some f \<Rightarrow> f finalAttributeName attributeValue) of
              Inl e \<Rightarrow> Throw e st
            | Inr False \<Rightarrow>
                (case to_string pf attributeValue of
                   Inl e \<Rightarrow> Throw e st
                 | Inr sv \<Rightarrow>
                     Throw (Error (''Validation failed for attribute: '' @ finalAttributeName
                                     @ '' with value: '' @ sv)) st)
            | Inr True \<Rightarrow>
                (case (case transformValue opts of
                         None \<Rightarrow> Inr attributeValue
                       | Some g \<Rightarrow> g finalAttributeName attributeValue) of
                   Inl e \<Rightarrow> Throw e st
                 | Inr transformedValue \<Rightarrow>
                     store_value pf opts finalAttributeName transformedValue st)))"

text \<open>One turn of the loop: the inner \<^verbatim>\<open>try\<close> with its \<^verbatim>\<open>catch (error) { onError(error) }\<close>.\<close>

definition set_entry ::
  "'v platform \<Rightarrow> 'v SetAttributesOptions \<Rightarrow> string \<times> 'v \<Rightarrow> 'v dom_state \<Rightarrow> 'v completion" where
  "set_entry pf opts entry st =
     (case try_entry pf opts entry st of
        Throw e st1 \<Rightarrow> call_onError opts e st1
      | other \<Rightarrow> other)"

text \<open>The \<^verbatim>\<open>for ... of Object.entries(attribute)\<close> loop.\<close>

fun set_entries ::
  "'v platform \<Rightarrow> 'v SetAttributesOptions \<Rightarrow> (string \<times> 'v) list \<Rightarrow> 'v dom_state \<Rightarrow> 'v completion" where
  "set_entries pf opts [] st = Normal st"
| "set_entries pf opts (entry # entries) st =
     (case set_entry pf opts entry st of
        Normal st1 \<Rightarrow> set_entries pf opts entries st1
      | other \<Rightarrow> other)"

text \<open>The body of the outer \<^verbatim>\<open>try\<close>.\<close>

definition try_setAttribute ::
  "'v platform \<Rightarrow> 'v SetAttributesOptions \<Rightarrow> target \<Rightarrow> 'v attribute_arg \<Rightarrow> 'v dom_state
     \<Rightarrow> 'v completion" where
  "try_setAttribute pf opts element attribute st =
     (if element \<noteq> HTMLElement then
        Throw (TypeError ''Provided element is not a valid HTMLElement.'') st
      else
        (case attribute of
           AttrNotObject \<Rightarrow> Throw (Error ''Attribute name must be a non-empty string.'') st
         | AttrNull \<Rightarrow> Throw (TypeError ''Cannot convert undefined or null to object'') st
         | AttrObject entries \<Rightarrow>
             (case set_entries pf opts entries st of
                Normal st1 \<Rightarrow> call_onAttributeSet opts st1
              | other \<Rightarrow> other)))"

text \<open>
  The function from its first statement on: the destructuring of the options precedes
  the \<^verbatim>\<open>try\<close>, so the TypeError that \<^verbatim>\<open>null\<close> raises there leaves the function.
\<close>

definition setAttribute_from ::
  "'v platform \<Rightarrow> 'v SetAttributesOptions \<Rightarrow> target \<Rightarrow> 'v attribute_arg \<Rightarrow> 'v dom_state
     \<Rightarrow> 'v completion" where
  "setAttribute_from pf opts element attribute st =
     (case try_setAttribute pf opts element attribute (st\<lparr>settedAttributes := []\<rparr>) of
        Throw e st1 \<Rightarrow> call_onError opts e st1
      | other \<Rightarrow> other)"

definition default_options :: "'v SetAttributesOptions" where
  "default_options =
     \<lparr>whitelist = None, blacklist = None, validate = None, transformValue = None,
      addPrefix = [], onAttributeSet = None, onError = None, log = False\<rparr>"

definition setAttribute ::
  "'v platform \<Rightarrow> target \<Rightarrow> 'v attribute_arg \<Rightarrow> 'v options_arg \<Rightarrow> 'v dom_state
     \<Rightarrow> 'v completion" where
  "setAttribute pf element attribute options st =
     (case options of
        OptionsNull \<Rightarrow>
          Throw (TypeError ''Cannot destructure property of options as it is null.'') st
      | OptionsUndefined \<Rightarrow> setAttribute_from pf default_options element attribute st
      | OptionsObject opts \<Rightarrow> setAttribute_from pf opts element attribute st)"

text \<open>The caller-supplied callbacks never throw.\<close>

definition callbacks_do_not_throw :: "'v SetAttributesOptions \<Rightarrow> bool" where
  "callbacks_do_not_throw opts \<longleftrightarrow>
     (case onError opts of None \<Rightarrow> True | Some f \<Rightarrow> \<forall>e. f e = None)
     \<and> (case onAttributeSet opts of None \<Rightarrow> True | Some f \<Rightarrow> \<forall>a. f a = None)
     \<and> (case validate opts of None \<Rightarrow> True | Some f \<Rightarrow> \<forall>k v. \<exists>b. f k v = Inr b)
     \<and> (case transformValue opts of None \<Rightarrow> True | Some f \<Rightarrow> \<forall>k v. \<exists>w. f k v = Inr w)"

definition empty_dom :: "'v dom_state" where
  "empty_dom = \<lparr>el_attributes = Map.empty, el_dataset = Map.empty, settedAttributes = [],
                console = [], reported = [], notified = []\<rparr>"

text \<open>
  Options with a \<^verbatim>\<open>validate\<close> that rejects empty values, and a platform over string
  values whose \<^verbatim>\<open>setAttribute\<close> rejects the empty name.
\<close>

definition strict_options :: "string SetAttributesOptions" where
  "strict_options = default_options\<lparr>validate := Some (\<lambda>k v. Inr (v \<noteq> []))\<rparr>"

definition string_platform :: "string platform" where
  "string_platform =
     \<lparr>native_setAttribute =
        (\<lambda>name v. if name = [] then Some (DOMException ''InvalidCharacterError'') else None),
      native_dataset_set = (\<lambda>key v. None),
      to_string = Inr\<rparr>"

section \<open>The request module of \<^verbatim>\<open>@butility/network\<close>\<close>

text \<open>
  The bundled module: \<^verbatim>\<open>ajaxFetch\<close>, \<^verbatim>\<open>ajaxXHR\<close>, \<^verbatim>\<open>handleFetchResponse\<close>,
  \<^verbatim>\<open>formatDataForFetch\<close>, \<^verbatim>\<open>handleError\<close>, \<^verbatim>\<open>retryRequest\<close>, \<^verbatim>\<open>formatDataForXHR\<close>
  (\<^verbatim>\<open>src/utils/ajax.ts\<close>) and \<^verbatim>\<open>ajax\<close>, \<^verbatim>\<open>get\<close>, \<^verbatim>\<open>post\<close>, \<^verbatim>\<open>put\<close>, \<^verbatim>\<open>patch\<close>,
  \<^verbatim>\<open>deleteRequest\<close> (\<^verbatim>\<open>src/core/request.ts\<close>). A call is modelled by what it gives back
  to its caller at once and by the sequence of everything it makes happen, at once and
  later: the calls into the browser, the callbacks of the caller, the console, the timers.
\<close>

subsection \<open>Values and options\<close>

text \<open>
  Numbers where the code computes with them: \<^verbatim>\<open>options.retries\<close> is an integer or NaN
  (\<^verbatim>\<open>undefined - 1\<close> is NaN). Fractions and infinities are left out.
\<close>

datatype js_number = Num int | NaN

text \<open>\<^verbatim>\<open>XMLHttpRequestResponseType\<close>, the empty string included.\<close>

datatype response_type = REmpty | RText | RJson | RBlob | RDocument | RArrayBuffer

text \<open>
  \<^verbatim>\<open>data?: string | FormData | object | null\<close>. An object is given by its entries in
  the order of \<^verbatim>\<open>Object.entries\<close>; the values of its properties are of a type \<open>'v\<close>
  left open.
\<close>

datatype 'v request_data =
  DataString string | DataForm "(string \<times> string) list" | DataObject "(string \<times> 'v) list"
  | DataNull

text \<open>What is handed to \<^verbatim>\<open>xhr.send\<close> or put into the \<^verbatim>\<open>body\<close> of the fetch configuration.\<close>

datatype 'v body =
  BodyText string | BodyForm "(string \<times> string) list" | BodyJson string
  | BodyObject "(string \<times> 'v) list" | BodyNull

text \<open>
  An \<^verbatim>\<open>AbortSignal\<close>, given by the moment its owner aborts it: not at all, before
  \<^verbatim>\<open>fetch\<close> is called, or after the request has gone out and before the response is in.
\<close>

datatype abort_signal = NotAborted | AbortedBeforeFetch | AbortedInFlight

text \<open>What \<^verbatim>\<open>success\<close> receives.\<close>

datatype 'v response_value =
  JsonValue 'v | NullValue | TextValue string | BlobValue string | ArrayBufferValue string

text \<open>What \<^verbatim>\<open>handleError\<close> receives: a message string or the error object caught.\<close>

datatype error_value = Message string | Raised js_error

text \<open>
  The interface \<^verbatim>\<open>AjaxOptions\<close>. \<open>None\<close> is a property that is absent. The code never
  checks \<^verbatim>\<open>method\<close> and \<^verbatim>\<open>url\<close>, so they can be absent too. A callback is a function
  that can throw (\<open>Some e\<close>). The field \<^verbatim>\<open>method\<close> is \<open>ajax_method\<close> here, the plain name
  being a reserved word of the proof language.
\<close>

record 'v AjaxOptions =
  ajax_method :: "string option"
  url :: "string option"
  headers :: "(string \<times> string) list option"
  data :: "'v request_data option"
  success :: "('v response_value \<Rightarrow> js_error option) option"
  error :: "(error_value \<Rightarrow> js_error option) option"
  timeout :: "nat option"
  retries :: "js_number option"
  retryDelay :: "nat option"
  responseType :: "response_type option"
  onProgress :: "(nat \<Rightarrow> nat \<Rightarrow> js_error option) option"
  abortSignal :: "abort_signal option"
  useFetch :: "bool option"

subsection \<open>The browser\<close>

text \<open>How the network ends one request: a response (status, status text, body), a
  network-level failure (DNS, CORS, connection), or no answer at all.\<close>

datatype native_outcome = Load nat string string | NetError | NoAnswer

text \<open>
  The browser as one logical call meets it. Each operation that can throw yields the
  error it throws: the string conversion of a value (\<^verbatim>\<open>encodeURIComponent(value)\<close>
  converts first; a Symbol throws), \<^verbatim>\<open>JSON.stringify\<close> (a cyclic object throws),
  \<^verbatim>\<open>xhr.open\<close> (a forbidden method or a malformed URL throws) and
  \<^verbatim>\<open>xhr.setRequestHeader\<close> (a malformed name throws). \<^verbatim>\<open>JSON.parse\<close> gives \<open>None\<close> for
  a malformed text. \<open>respond k\<close> is the end of the \<open>k\<close>-th request of the call,
  \<open>progress k\<close> the progress notifications before it.
\<close>

record 'v browser =
  value_to_string :: "'v \<Rightarrow> js_error + string"
  json_stringify :: "(string \<times> 'v) list \<Rightarrow> js_error + string"
  json_parse :: "string \<Rightarrow> 'v option"
  xhr_open :: "string option \<Rightarrow> string option \<Rightarrow> js_error option"
  xhr_setRequestHeader :: "string \<Rightarrow> string \<Rightarrow> js_error option"
  respond :: "nat \<Rightarrow> native_outcome"
  progress :: "nat \<Rightarrow> (nat \<times> nat) list"

record 'v fetch_config =
  fc_method :: "string option"
  fc_headers :: "(string \<times> string) list option"
  fc_body :: "'v body option"
  fc_signal :: "abort_signal option"

text \<open>
  Everything a call makes happen. \<open>RequestStarted\<close> is the browser putting a request on
  the network; \<open>Uncaught\<close> is an exception that leaves an event handler or a timer
  callback and reaches nobody.
\<close>

datatype 'v event =
    XhrOpen "string option" "string option"
  | XhrSetRequestHeader string string
  | XhrSetResponseType response_type
  | XhrSetTimeout nat
  | XhrSend "'v body option"
  | Fetch "string option" "'v fetch_config"
  | RequestStarted
  | SuccessCalled "'v response_value"
  | ErrorCalled error_value
  | ProgressCalled nat nat
  | ConsoleError error_value
  | ConsoleWarn string
  | SetTimeout nat
  | Uncaught js_error

datatype promise_state = Pending | Fulfilled | Rejected js_error

text \<open>What the caller holds when the call comes back: an exception, \<^verbatim>\<open>undefined\<close>, or a
  promise, given with the state it settles in.\<close>

datatype sync_result = Throws js_error | ReturnsUndefined | ReturnsPromise promise_state

text \<open>
  A run: the result for the caller, the events in order, and whether the run is told to
  its end (\<open>quiescent\<close>: nothing more will happen) or cut off by the bound on the
  number of attempts followed.
\<close>

record 'v run =
  returned :: sync_result
  events :: "'v event list"
  quiescent :: bool

text \<open>Some events and the error a statement may have thrown after them.\<close>

type_synonym 'v effect = "'v event list \<times> js_error option"

fun is_request :: "'v event \<Rightarrow> bool" where
  "is_request RequestStarted = True"
| "is_request other = False"

definition count_requests :: "'v event list \<Rightarrow> nat" where
  "count_requests evs = length (filter is_request evs)"

fun is_delivery :: "'v event \<Rightarrow> bool" where
  "is_delivery (SuccessCalled v) = True"
| "is_delivery (ErrorCalled e) = True"
| "is_delivery (ConsoleError e) = True"
| "is_delivery other = False"

definition deliveries :: "'v event list \<Rightarrow> 'v event list" where
  "deliveries evs = filter is_delivery evs"

subsection \<open>Numbers as text\<close>

definition digit_char :: "nat \<Rightarrow> char" where
  "digit_char n = ''0123456789'' ! (n mod 10)"

function show_nat :: "nat \<Rightarrow> string" where
  "show_nat n = (if n < 10 then [digit_char n] else show_nat (n div 10) @ [digit_char (n mod 10)])"
  by pat_completeness auto
termination
  by (relation "measure (\<lambda>n. n)") auto

declare show_nat.simps [simp del]

text \<open>\<^verbatim>\<open>options.retries\<close> inside a template literal.\<close>

definition show_retries :: "js_number option \<Rightarrow> string" where
  "show_retries r =
     (case r of
        None \<Rightarrow> ''undefined''
      | Some NaN \<Rightarrow> ''NaN''
      | Some (Num i) \<Rightarrow> (if i < 0 then CHR ''-'' # show_nat (nat (- i)) else show_nat (nat i)))"

subsection \<open>\<^verbatim>\<open>src/utils/ajax.ts\<close>\<close>

text \<open>
  \<^verbatim>\<open>formatDataForFetch\<close> and \<^verbatim>\<open>formatDataForXHR\<close> have the same body: an object that is
  not a FormData is serialised when \<^verbatim>\<open>headers["Content-Type"]\<close> is exactly
  \<^verbatim>\<open>application/json\<close>, and everything else is returned as it came.
\<close>

definition formatDataForFetch ::
  "'v browser \<Rightarrow> 'v request_data option \<Rightarrow> (string \<times> string) list option
     \<Rightarrow> js_error + 'v body option" where
  "formatDataForFetch pf d hs =
     (case d of
        None \<Rightarrow> Inr None
      | Some DataNull \<Rightarrow> Inr (Some BodyNull)
      | Some (DataString t) \<Rightarrow> Inr (Some (BodyText t))
      | Some (DataForm f) \<Rightarrow> Inr (Some (BodyForm f))
      | Some (DataObject obj) \<Rightarrow>
          (if (case hs of
                 None \<Rightarrow> False
               | Some h \<Rightarrow> map_of h ''Content-Type'' = Some ''application/json'')
           then (case json_stringify pf obj of
                   Inl e \<Rightarrow> Inl e
                 | Inr t \<Rightarrow> Inr (Some (BodyJson t)))
           else Inr (Some (BodyObject obj))))"

definition formatDataForXHR ::
  "'v browser \<Rightarrow> 'v request_data option \<Rightarrow> (string \<times> string) list option
     \<Rightarrow> js_error + 'v body option" where
  "formatDataForXHR pf d hs = formatDataForFetch pf d hs"

text \<open>\<^verbatim>\<open>handleError\<close>: the error callback when there is one, the console otherwise.\<close>

definition handleError :: "'v AjaxOptions \<Rightarrow> error_value \<Rightarrow> 'v effect" where
  "handleError options err =
     (case error options of
        Some f \<Rightarrow> ([ErrorCalled err], f err)
      | None \<Rightarrow> ([ConsoleError err], None))"

text \<open>An exception that leaves a handler is reported as uncaught and goes no further.\<close>

definition in_handler :: "'v effect \<Rightarrow> 'v event list" where
  "in_handler r = fst r @ (case snd r of None \<Rightarrow> [] | Some e \<Rightarrow> [Uncaught e])"

text \<open>The loop over \<^verbatim>\<open>Object.entries(options.headers)\<close>.\<close>

fun set_headers :: "'v browser \<Rightarrow> (string \<times> string) list \<Rightarrow> 'v effect" where
  "set_headers pf [] = ([], None)"
| "set_headers pf (h # hs) =
     (case xhr_setRequestHeader pf (fst h) (snd h) of
        Some e \<Rightarrow> ([XhrSetRequestHeader (fst h) (snd h)], Some e)
      | None \<Rightarrow>
          (let r = set_headers pf hs in (XhrSetRequestHeader (fst h) (snd h) # fst r, snd r)))"

text \<open>\<^verbatim>\<open>if (options.timeout)\<close>: a number other than 0.\<close>

definition timeout_set :: "'v AjaxOptions \<Rightarrow> nat option" where
  "timeout_set options =
     (case timeout options of None \<Rightarrow> None | Some n \<Rightarrow> if n = 0 then None else Some n)"

text \<open>\<^verbatim>\<open>if (options.responseType)\<close>: a string other than the empty one.\<close>

definition responseType_set :: "'v AjaxOptions \<Rightarrow> response_type option" where
  "responseType_set options =
     (case responseType options of
        None \<Rightarrow> None
      | Some REmpty \<Rightarrow> None
      | Some t \<Rightarrow> Some t)"

text \<open>
  The statements of \<^verbatim>\<open>ajaxXHR\<close> that run at once, from \<^verbatim>\<open>xhr.open\<close> to \<^verbatim>\<open>xhr.send\<close>.
  None of them stands in a \<^verbatim>\<open>try\<close>. The data are handed to \<^verbatim>\<open>send\<close> whatever the
  method.
\<close>

definition ajaxXHR_send :: "'v browser \<Rightarrow> 'v AjaxOptions \<Rightarrow> 'v effect" where
  "ajaxXHR_send pf options =
     (let opened = [XhrOpen (ajax_method options) (url options)]
      in case xhr_open pf (ajax_method options) (url options) of
           Some e \<Rightarrow> (opened, Some e)
         | None \<Rightarrow>
             (let hdr = (case headers options of None \<Rightarrow> ([], None) | Some hs \<Rightarrow> set_headers pf hs)
              in case snd hdr of
                   Some e \<Rightarrow> (opened @ fst hdr, Some e)
                 | None \<Rightarrow>
                     (let configured =
                            opened @ fst hdr
                            @ (case responseType_set options of
                                 None \<Rightarrow> [] | Some t \<Rightarrow> [XhrSetResponseType t])
                            @ (case timeout_set options of
                                 None \<Rightarrow> [] | Some n \<Rightarrow> [XhrSetTimeout n])
                      in case formatDataForXHR pf (data options) (headers options) of
                           Inl e \<Rightarrow> (configured, Some e)
                         | Inr requestData \<Rightarrow>
                             (configured @ [XhrSend requestData, RequestStarted], None))))"

text \<open>
  \<^verbatim>\<open>options.responseType === "json" ? xhr.response : xhr.responseText\<close>. For the type
  \<^verbatim>\<open>json\<close> the browser has parsed the body, with \<^verbatim>\<open>null\<close> for a body that does not
  parse. Reading \<^verbatim>\<open>responseText\<close> throws an InvalidStateError unless the response type
  of the request is the empty string or \<^verbatim>\<open>text\<close>.
\<close>

definition xhr_response ::
  "'v browser \<Rightarrow> 'v AjaxOptions \<Rightarrow> string \<Rightarrow> js_error + 'v response_value" where
  "xhr_response pf options body =
     (case responseType options of
        Some RJson \<Rightarrow>
          Inr (case json_parse pf body of None \<Rightarrow> NullValue | Some v \<Rightarrow> JsonValue v)
      | Some RBlob \<Rightarrow> Inl (DOMException ''InvalidStateError'')
      | Some RDocument \<Rightarrow> Inl (DOMException ''InvalidStateError'')
      | Some RArrayBuffer \<Rightarrow> Inl (DOMException ''InvalidStateError'')
      | Some RText \<Rightarrow> Inr (TextValue body)
      | Some REmpty \<Rightarrow> Inr (TextValue body)
      | None \<Rightarrow> Inr (TextValue body))"

text \<open>\<^verbatim>\<open>xhr.onload\<close>.\<close>

definition onload ::
  "'v browser \<Rightarrow> 'v AjaxOptions \<Rightarrow> nat \<Rightarrow> string \<Rightarrow> string \<Rightarrow> 'v effect" where
  "onload pf options status statusText body =
     (if 200 \<le> status \<and> status < 300 then
        (case success options of
           None \<Rightarrow> ([], None)
         | Some f \<Rightarrow>
             (case xhr_response pf options body of
                Inl e \<Rightarrow> ([], Some e)
              | Inr response \<Rightarrow> ([SuccessCalled response], f response)))
      else
        handleError options
          (Message (''Request failed with status '' @ show_nat status @ '': '' @ statusText)))"

text \<open>\<^verbatim>\<open>xhr.onerror\<close> and \<^verbatim>\<open>xhr.ontimeout\<close>.\<close>

definition onerror :: "'v AjaxOptions \<Rightarrow> 'v effect" where
  "onerror options = handleError options (Message ''Request failed due to network error.'')"

definition ontimeout :: "'v AjaxOptions \<Rightarrow> nat \<Rightarrow> 'v effect" where
  "ontimeout options ms =
     handleError options (Message (''Request timed out after '' @ show_nat ms @ ''ms''))"

text \<open>\<^verbatim>\<open>xhr.onprogress\<close>, set when \<^verbatim>\<open>options.onProgress\<close> is there.\<close>

definition onprogress :: "'v browser \<Rightarrow> 'v AjaxOptions \<Rightarrow> nat \<Rightarrow> 'v event list" where
  "onprogress pf options k =
     (case onProgress options of
        None \<Rightarrow> []
      | Some f \<Rightarrow>
          concat (map (\<lambda>p. in_handler ([ProgressCalled (fst p) (snd p)], f (fst p) (snd p)))
                    (progress pf k)))"

text \<open>
  How the \<open>k\<close>-th request ends for its handlers: the events of the handler that runs and
  \<^verbatim>\<open>xhr.status\<close> afterwards (0 unless a response came), or \<open>None\<close> when no event ever
  fires: no answer and no timeout set.
\<close>

definition xhr_end ::
  "'v browser \<Rightarrow> 'v AjaxOptions \<Rightarrow> nat \<Rightarrow> ('v event list \<times> nat) option" where
  "xhr_end pf options k =
     (case respond pf k of
        Load status statusText body \<Rightarrow>
          Some (in_handler (onload pf options status statusText body), status)
      | NetError \<Rightarrow> Some (in_handler (onerror options), 0)
      | NoAnswer \<Rightarrow>
          (case timeout_set options of
             None \<Rightarrow> None
           | Some ms \<Rightarrow> Some (in_handler (ontimeout options ms), 0)))"

text \<open>\<^verbatim>\<open>(options.retries || 1)\<close>, \<^verbatim>\<open>options.retries - 1\<close> and \<^verbatim>\<open>options.retryDelay || 1e3\<close>.\<close>

definition retries_or_1 :: "js_number option \<Rightarrow> int" where
  "retries_or_1 r =
     (case r of None \<Rightarrow> 1 | Some NaN \<Rightarrow> 1 | Some (Num n) \<Rightarrow> if n = 0 then 1 else n)"

definition retries_minus_1 :: "js_number option \<Rightarrow> js_number" where
  "retries_minus_1 r = (case r of None \<Rightarrow> NaN | Some NaN \<Rightarrow> NaN | Some (Num n) \<Rightarrow> Num (n - 1))"

definition retryDelay_or_1000 :: "'v AjaxOptions \<Rightarrow> nat" where
  "retryDelay_or_1000 options =
     (case retryDelay options of None \<Rightarrow> 1000 | Some d \<Rightarrow> if d = 0 then 1000 else d)"

text \<open>
  \<^verbatim>\<open>retryRequest(xhr, options, attempt = 1)\<close>: the test of its \<^verbatim>\<open>onloadend\<close> handler. The
  only call site passes no \<^verbatim>\<open>attempt\<close>, so it is 1 in every attempt.
\<close>

definition retryRequest :: "'v AjaxOptions \<Rightarrow> nat \<Rightarrow> bool" where
  "retryRequest options status \<longleftrightarrow> 400 \<le> status \<and> 1 \<le> retries_or_1 (retries options)"

text \<open>
  What follows the \<open>k\<close>-th \<^verbatim>\<open>send\<close> of \<^verbatim>\<open>ajaxXHR\<close>: progress, the end of the request,
  and when \<^verbatim>\<open>onloadend\<close> decides so the timer, the warning and \<^verbatim>\<open>ajaxXHR\<close> again with
  \<^verbatim>\<open>retries - 1\<close>, whose exception reaches nobody. The chain of attempts need not end;
  the first argument bounds the number of attempts whose end is followed, and the
  second component of the result says whether the chain ended within the bound.
\<close>

fun xhr_after_send ::
  "nat \<Rightarrow> 'v browser \<Rightarrow> 'v AjaxOptions \<Rightarrow> nat \<Rightarrow> 'v event list \<times> bool" where
  "xhr_after_send 0 pf options k = ([], False)"
| "xhr_after_send (Suc fuel) pf options k =
     (case xhr_end pf options k of
        None \<Rightarrow> (onprogress pf options k, True)
      | Some ended \<Rightarrow>
          (if retryRequest options (snd ended) then
             (let again = options\<lparr>retries := Some (retries_minus_1 (retries options))\<rparr>;
                  timer = [SetTimeout (retryDelay_or_1000 options),
                           ConsoleWarn (''Retrying request... (1/'' @ show_retries (retries options)
                                          @ '')'')];
                  sent = ajaxXHR_send pf again
              in case snd sent of
                   Some e \<Rightarrow>
                     (onprogress pf options k @ fst ended @ timer @ fst sent @ [Uncaught e], True)
                 | None \<Rightarrow>
                     (let rest = xhr_after_send fuel pf again (Suc k)
                      in (onprogress pf options k @ fst ended @ timer @ fst sent @ fst rest,
                          snd rest)))
           else (onprogress pf options k @ fst ended, True)))"

text \<open>\<^verbatim>\<open>ajaxXHR\<close>: it has no \<^verbatim>\<open>return\<close>.\<close>

definition ajaxXHR :: "nat \<Rightarrow> 'v browser \<Rightarrow> 'v AjaxOptions \<Rightarrow> 'v run" where
  "ajaxXHR fuel pf options =
     (let sent = ajaxXHR_send pf options
      in case snd sent of
           Some e \<Rightarrow> \<lparr>returned = Throws e, events = fst sent, quiescent = True\<rparr>
         | None \<Rightarrow>
             (let rest = xhr_after_send fuel pf options 1
              in \<lparr>returned = ReturnsUndefined, events = fst sent @ fst rest,
                  quiescent = snd rest\<rparr>))"

text \<open>
  \<^verbatim>\<open>handleFetchResponse\<close>: a response that is not \<^verbatim>\<open>ok\<close> throws before anything is
  decoded; \<^verbatim>\<open>response.json()\<close> rejects with a SyntaxError for a body that does not
  parse; every type other than \<^verbatim>\<open>json\<close>, \<^verbatim>\<open>blob\<close> and \<^verbatim>\<open>arraybuffer\<close> takes the
  \<^verbatim>\<open>default\<close> branch.
\<close>

definition handleFetchResponse ::
  "'v browser \<Rightarrow> nat \<Rightarrow> string \<Rightarrow> response_type option \<Rightarrow> js_error + 'v response_value" where
  "handleFetchResponse pf status body rt =
     (if \<not> (200 \<le> status \<and> status < 300) then Inl (Error (''HTTP error: '' @ show_nat status))
      else
        (case rt of
           Some RJson \<Rightarrow>
             (case json_parse pf body of
                None \<Rightarrow> Inl (SyntaxError ''Unexpected token in JSON'')
              | Some v \<Rightarrow> Inr (JsonValue v))
         | Some RBlob \<Rightarrow> Inr (BlobValue body)
         | Some RArrayBuffer \<Rightarrow> Inr (ArrayBufferValue body)
         | Some RText \<Rightarrow> Inr (TextValue body)
         | Some RDocument \<Rightarrow> Inr (TextValue body)
         | Some REmpty \<Rightarrow> Inr (TextValue body)
         | None \<Rightarrow> Inr (TextValue body)))"

datatype fetch_outcome = FetchRejects js_error | FetchResponds nat string string | FetchHangs

text \<open>
  The browser's \<^verbatim>\<open>fetch\<close> with a signal: a signal already aborted rejects with an
  AbortError and no request goes out; a signal aborted in flight rejects with an
  AbortError; a network-level failure rejects with a TypeError. The first component says
  whether a request went out.
\<close>

definition fetch :: "'v browser \<Rightarrow> abort_signal option \<Rightarrow> bool \<times> fetch_outcome" where
  "fetch pf signal =
     (case signal of
        Some AbortedBeforeFetch \<Rightarrow> (False, FetchRejects (DOMException ''AbortError''))
      | Some AbortedInFlight \<Rightarrow> (True, FetchRejects (DOMException ''AbortError''))
      | Some NotAborted \<Rightarrow>
          (True, case respond pf 1 of
                   Load status statusText body \<Rightarrow> FetchResponds status statusText body
                 | NetError \<Rightarrow> FetchRejects (TypeError ''Failed to fetch'')
                 | NoAnswer \<Rightarrow> FetchHangs)
      | None \<Rightarrow>
          (True, case respond pf 1 of
                   Load status statusText body \<Rightarrow> FetchResponds status statusText body
                 | NetError \<Rightarrow> FetchRejects (TypeError ''Failed to fetch'')
                 | NoAnswer \<Rightarrow> FetchHangs))"

text \<open>The \<^verbatim>\<open>catch\<close> of \<^verbatim>\<open>ajaxFetch\<close>: what \<^verbatim>\<open>handleError\<close> throws rejects the promise.\<close>

definition fetch_caught ::
  "'v AjaxOptions \<Rightarrow> 'v event list \<Rightarrow> error_value \<Rightarrow> 'v run" where
  "fetch_caught options before err =
     (let h = handleError options err
      in \<lparr>returned = ReturnsPromise (case snd h of None \<Rightarrow> Fulfilled | Some e \<Rightarrow> Rejected e),
          events = before @ fst h, quiescent = True\<rparr>)"

text \<open>
  \<^verbatim>\<open>ajaxFetch\<close>, an \<^verbatim>\<open>async\<close> function: it always gives a promise back. The
  configuration is built before the \<^verbatim>\<open>try\<close>, so an exception of \<^verbatim>\<open>JSON.stringify\<close>
  rejects the promise; everything from \<^verbatim>\<open>fetch\<close> on is inside the \<^verbatim>\<open>try\<close>.
\<close>

definition ajaxFetch :: "'v browser \<Rightarrow> 'v AjaxOptions \<Rightarrow> 'v run" where
  "ajaxFetch pf options =
     (case (if ajax_method options \<noteq> Some ''GET''
            then formatDataForFetch pf (data options) (headers options) else Inr None) of
        Inl e \<Rightarrow> \<lparr>returned = ReturnsPromise (Rejected e), events = [], quiescent = True\<rparr>
      | Inr b \<Rightarrow>
          (let config = \<lparr>fc_method = ajax_method options, fc_headers = headers options,
                         fc_body = b, fc_signal = abortSignal options\<rparr>;
               answer = fetch pf (abortSignal options);
               called = Fetch (url options) config
                        # (if fst answer then [RequestStarted] else [])
           in case snd answer of
                FetchHangs \<Rightarrow>
                  \<lparr>returned = ReturnsPromise Pending, events = called, quiescent = True\<rparr>
              | FetchRejects e \<Rightarrow> fetch_caught options called (Raised e)
              | FetchResponds status statusText body \<Rightarrow>
                  (case handleFetchResponse pf status body (responseType options) of
                     Inl e \<Rightarrow> fetch_caught options called (Raised e)
                   | Inr responseBody \<Rightarrow>
                       (case success options of
                          None \<Rightarrow>
                            \<lparr>returned = ReturnsPromise Fulfilled, events = called,
                             quiescent = True\<rparr>
                        | Some f \<Rightarrow>
                            (case f responseBody of
                               None \<Rightarrow>
                                 \<lparr>returned = ReturnsPromise Fulfilled,
                                  events = called @ [SuccessCalled responseBody],
                                  quiescent = True\<rparr>
                             | Some e \<Rightarrow>
                                 fetch_caught options (called @ [SuccessCalled responseBody])
                                   (Raised e))))))"

subsection \<open>\<^verbatim>\<open>src/core/request.ts\<close>\<close>

text \<open>\<^verbatim>\<open>ajax\<close>. It validates nothing and fills in nothing.\<close>

definition ajax :: "nat \<Rightarrow> 'v browser \<Rightarrow> 'v AjaxOptions \<Rightarrow> 'v run" where
  "ajax fuel pf options =
     (if useFetch options = Some True then ajaxFetch pf options else ajaxXHR fuel pf options)"











definition no_options :: "'v AjaxOptions" where
  "no_options =
     \<lparr>ajax_method = None, url = None, headers = None, data = None, success = None,
      error = None, timeout = None, retries = None, retryDelay = None, responseType = None,
      onProgress = None, abortSignal = None, useFetch = None\<rparr>"











subsection \<open>Conditions and sample calls\<close>

text \<open>A browser that throws on none of its operations.\<close>

definition permissive :: "'v browser \<Rightarrow> bool" where
  "permissive pf \<longleftrightarrow>
     (\<forall>m u. xhr_open pf m u = None) \<and> (\<forall>k v. xhr_setRequestHeader pf k v = None)
     \<and> (\<forall>obj. \<exists>t. json_stringify pf obj = Inr t) \<and> (\<forall>v. \<exists>t. value_to_string pf v = Inr t)"

text \<open>The callbacks of the options never throw.\<close>

definition callbacks_quiet :: "'v AjaxOptions \<Rightarrow> bool" where
  "callbacks_quiet options \<longleftrightarrow>
     (case success options of None \<Rightarrow> True | Some f \<Rightarrow> \<forall>v. f v = None)
     \<and> (case error options of None \<Rightarrow> True | Some f \<Rightarrow> \<forall>e. f e = None)
     \<and> (case onProgress options of None \<Rightarrow> True | Some f \<Rightarrow> \<forall>l t. f l t = None)"

text \<open>Where \<^verbatim>\<open>handleError\<close> puts an error: the callback, or else the console.\<close>

definition error_channel :: "'v AjaxOptions \<Rightarrow> error_value \<Rightarrow> 'v event" where
  "error_channel options err =
     (case error options of None \<Rightarrow> ConsoleError err | Some f \<Rightarrow> ErrorCalled err)"

text \<open>
  A browser over string values that throws on nothing, parses as JSON the texts that
  start with a brace, and answers the \<open>k\<close>-th request as the given function says; and
  servers that always answer with one status, or fail some times first.
\<close>

definition browser_with :: "(nat \<Rightarrow> native_outcome) \<Rightarrow> string browser" where
  "browser_with answers =
     \<lparr>value_to_string = Inr,
      json_stringify = (\<lambda>obj. Inr ''{}''),
      json_parse = (\<lambda>b. if take 1 b = ''{'' then Some b else None),
      xhr_open = (\<lambda>m u. None),
      xhr_setRequestHeader = (\<lambda>k v. None),
      respond = answers,
      progress = (\<lambda>k. [])\<rparr>"

definition always :: "nat \<Rightarrow> string \<Rightarrow> nat \<Rightarrow> native_outcome" where
  "always status body k = Load status ''status'' body"



definition plain_get :: "string AjaxOptions" where
  "plain_get = no_options\<lparr>ajax_method := Some ''GET'', url := Some ''/x''\<rparr>"





subsection \<open>Properties of the page\<close>

lemma index_in_range_initial: "index_in_range initial_page"
  by (simp add: index_in_range_def initial_page_def)

lemma index_in_range_goBack: "index_in_range s \<Longrightarrow> index_in_range (goBack s)"
  by (simp add: index_in_range_def goBack_def Let_def)

lemma index_in_range_goForward: "index_in_range s \<Longrightarrow> index_in_range (goForward s)"
  by (simp add: index_in_range_def goForward_def setRandomWallpaper_def Let_def)

lemma fetch_success_history:
  "index_in_range s \<Longrightarrow>
   wallpaperHistory (fetch_success u s) =
     take (nat (currentIndex s + 1)) (wallpaperHistory s) @ [u]"
  by (auto simp add: index_in_range_def fetch_success_def splice_from_def Let_def)

lemma fetch_success_at_end:
  assumes "index_in_range s"
  shows "currentIndex (fetch_success u s) =
         int (length (wallpaperHistory (fetch_success u s))) - 1"
proof -
  have "length (wallpaperHistory (fetch_success u s)) = nat (currentIndex s + 1) + 1"
    using assms by (auto simp add: fetch_success_history index_in_range_def)
  moreover have "currentIndex (fetch_success u s) = currentIndex s + 1"
    by (simp add: fetch_success_def Let_def)
  ultimately show ?thesis
    using assms by (simp add: index_in_range_def)
qed

lemma index_in_range_fetch_success:
  "index_in_range s \<Longrightarrow> index_in_range (fetch_success u s)"
  using fetch_success_at_end [of s u]
  by (simp add: index_in_range_def fetch_success_def Let_def)

lemma index_in_range_step: "index_in_range s \<Longrightarrow> index_in_range (page_step s e)"
  by (cases e)
     (simp_all add: index_in_range_goBack index_in_range_goForward index_in_range_fetch_success)

lemma index_in_range_foldl:
  "index_in_range s \<Longrightarrow> index_in_range (foldl page_step s evs)"
  by (induction evs arbitrary: s) (simp_all add: index_in_range_step)

lemma index_in_range_run: "index_in_range (run_page evs)"
  by (simp add: run_page_def index_in_range_foldl index_in_range_initial)

text \<open>
  C9. Starting from the empty history with index -1, after any sequence of back clicks,
  forward clicks and fetch successes the index lies between -1 and the last position
  of the history. A back click changes nothing while the index is at most 0. A fetch
  success applied to such a state cuts the history after the old index, appends the
  new URL, and leaves the index on the last position.
\<close>

theorem page_index_invariant:
  "- 1 \<le> currentIndex (run_page evs)
   \<and> currentIndex (run_page evs) \<le> int (length (wallpaperHistory (run_page evs))) - 1
   \<and> (currentIndex (run_page evs) \<le> 0 \<longrightarrow> goBack (run_page evs) = run_page evs)
   \<and> wallpaperHistory (fetch_success u (run_page evs)) =
       take (nat (currentIndex (run_page evs) + 1)) (wallpaperHistory (run_page evs)) @ [u]
   \<and> currentIndex (fetch_success u (run_page evs)) =
       int (length (wallpaperHistory (fetch_success u (run_page evs)))) - 1"
proof -
  have inv: "index_in_range (run_page evs)"
    by (rule index_in_range_run)
  have unchanged: "currentIndex (run_page evs) \<le> 0 \<longrightarrow> goBack (run_page evs) = run_page evs"
    by (simp add: goBack_def)
  from inv unchanged fetch_success_history [OF inv, of u] fetch_success_at_end [OF inv, of u]
  show ?thesis
    by (simp add: index_in_range_def)
qed

theorem page_index_invariant_witness:
  "currentIndex (run_page [FetchSuccess ''blob:a'', BackClick]) \<le> 0
   \<and> goBack (run_page [FetchSuccess ''blob:a'', BackClick])
       = run_page [FetchSuccess ''blob:a'', BackClick]
   \<and> currentIndex (fetch_success ''blob:b'' (run_page [FetchSuccess ''blob:a'', BackClick])) = 1"
proof -
  have idx: "currentIndex (run_page [FetchSuccess ''blob:a'', BackClick]) = 0"
    by (simp add: run_page_def initial_page_def fetch_success_def splice_from_def goBack_def)
  have len: "length (wallpaperHistory
      (fetch_success ''blob:b'' (run_page [FetchSuccess ''blob:a'', BackClick]))) = 2"
    by (simp add: run_page_def initial_page_def fetch_success_def splice_from_def goBack_def)
  show ?thesis
    using page_index_invariant [of "[FetchSuccess ''blob:a'', BackClick]" "''blob:b''"] idx len
    by simp
qed

subsection \<open>Properties of \<^verbatim>\<open>setAttribute\<close>\<close>

lemma call_onError_normal:
  assumes "callbacks_do_not_throw opts"
  shows "returns_normally (call_onError opts e st)"
    and "reported (final_state (call_onError opts e st)) = reported st @ [e]"
  using assms
  by (auto simp add: callbacks_do_not_throw_def call_onError_def Let_def split: option.splits)

lemma call_onError_console:
  "onError opts = None \<Longrightarrow>
   console (final_state (call_onError opts e st)) = console st @ [LoggedError e]"
  by (simp add: call_onError_def Let_def)

lemma call_onAttributeSet_normal:
  assumes "callbacks_do_not_throw opts"
  shows "returns_normally (call_onAttributeSet opts st)"
  using assms
  by (auto simp add: callbacks_do_not_throw_def call_onAttributeSet_def Let_def
           split: option.splits)

lemma set_entry_normal:
  assumes "callbacks_do_not_throw opts"
  shows "returns_normally (set_entry pf opts entry st)"
proof (cases "try_entry pf opts entry st")
  case (Throw e st1)
  then show ?thesis
    using call_onError_normal(1) [OF assms] by (simp add: set_entry_def)
qed (simp_all add: set_entry_def)

lemma set_entry_reports:
  assumes "callbacks_do_not_throw opts" and "try_entry pf opts entry st = Throw e st1"
  shows "reported (final_state (set_entry pf opts entry st)) = reported st1 @ [e]"
  using assms call_onError_normal(2) [OF assms(1)] by (simp add: set_entry_def)

lemma set_entries_normal:
  assumes "callbacks_do_not_throw opts"
  shows "returns_normally (set_entries pf opts entries st)"
proof (induction entries arbitrary: st)
  case Nil
  show ?case by simp
next
  case (Cons entry entries)
  show ?case
  proof (cases "set_entry pf opts entry st")
    case (Normal st1)
    then show ?thesis using Cons.IH [of st1] by simp
  next
    case (Return st1)
    then show ?thesis by simp
  next
    case (Throw e st1)
    then show ?thesis using set_entry_normal [OF assms, of pf entry st] by simp
  qed
qed

lemma try_setAttribute_cases:
  assumes "callbacks_do_not_throw opts"
    and "try_setAttribute pf opts element attribute st = Throw e st1"
  shows "element = NotAnElement \<or> attribute = AttrNotObject \<or> attribute = AttrNull"
proof (rule ccontr)
  assume neg: "\<not> (element = NotAnElement \<or> attribute = AttrNotObject \<or> attribute = AttrNull)"
  then obtain entries where el: "element = HTMLElement" and at: "attribute = AttrObject entries"
    by (cases element; cases attribute) auto
  have "returns_normally (try_setAttribute pf opts element attribute st)"
  proof (cases "set_entries pf opts entries st")
    case (Normal st2)
    then show ?thesis
      using call_onAttributeSet_normal [OF assms(1)] by (simp add: try_setAttribute_def el at)
  next
    case (Return st2)
    then show ?thesis by (simp add: try_setAttribute_def el at)
  next
    case (Throw x st2)
    then show ?thesis
      using set_entries_normal [OF assms(1), of pf entries st] by simp
  qed
  with assms(2) show False by simp
qed

lemma setAttribute_from_normal:
  assumes "callbacks_do_not_throw opts"
  shows "returns_normally (setAttribute_from pf opts element attribute st)"
proof (cases "try_setAttribute pf opts element attribute (st\<lparr>settedAttributes := []\<rparr>)")
  case (Throw e st1)
  then show ?thesis
    using call_onError_normal(1) [OF assms] by (simp add: setAttribute_from_def)
qed (simp_all add: setAttribute_from_def)

lemma default_options_do_not_throw: "callbacks_do_not_throw default_options"
  by (simp add: callbacks_do_not_throw_def default_options_def)

lemma setAttribute_from_not_element:
  assumes "callbacks_do_not_throw opts"
  shows "reported (final_state (setAttribute_from pf opts NotAnElement attribute st)) =
         reported st @ [TypeError ''Provided element is not a valid HTMLElement.'']"
  using call_onError_normal(2) [OF assms]
  by (simp add: setAttribute_from_def try_setAttribute_def)

lemma setAttribute_from_not_object:
  assumes "callbacks_do_not_throw opts"
  shows "reported (final_state (setAttribute_from pf opts HTMLElement AttrNotObject st)) =
         reported st @ [Error ''Attribute name must be a non-empty string.'']"
  using call_onError_normal(2) [OF assms]
  by (simp add: setAttribute_from_def try_setAttribute_def)

text \<open>What has been handed to \<^verbatim>\<open>onError\<close> stays handed over.\<close>

lemma call_onError_keeps:
  "x \<in> set (reported st) \<Longrightarrow> x \<in> set (reported (final_state (call_onError opts e st)))"
  by (auto simp add: call_onError_def Let_def split: option.splits)

lemma call_onAttributeSet_keeps:
  "x \<in> set (reported st) \<Longrightarrow> x \<in> set (reported (final_state (call_onAttributeSet opts st)))"
  by (auto simp add: call_onAttributeSet_def Let_def split: option.splits)

lemma log_set_keeps:
  "reported (final_state (log_set pf lg label name v st)) = reported st"
  by (auto simp add: log_set_def console_log_def split: sum.splits)

lemma store_value_keeps:
  "reported (final_state (store_value pf opts name v st)) = reported st"
proof -
  have a: "\<And>c. reported (final_state
             (case c of Normal st1 \<Rightarrow>
                Normal (st1\<lparr>settedAttributes := defineProperty (settedAttributes st1) name v\<rparr>)
              | Return st1 \<Rightarrow> Return st1 | Throw e st1 \<Rightarrow> Throw e st1)) =
           reported (final_state c)"
    by (case_tac c) simp_all
  show ?thesis
    unfolding store_value_def Let_def
    by (simp add: a log_set_keeps split: option.splits)
qed

lemma try_entry_keeps:
  "reported (final_state (try_entry pf opts entry st)) = reported st"
  by (auto simp add: try_entry_def Let_def console_log_def store_value_keeps
           split: option.splits sum.splits bool.splits)

lemma set_entry_keeps:
  "x \<in> set (reported st) \<Longrightarrow> x \<in> set (reported (final_state (set_entry pf opts entry st)))"
proof (cases "try_entry pf opts entry st")
  case (Throw e st1)
  assume x: "x \<in> set (reported st)"
  from try_entry_keeps [of pf opts entry st] Throw have "reported st1 = reported st" by simp
  with x Throw show ?thesis by (simp add: set_entry_def call_onError_keeps)
next
  case (Normal st1)
  assume x: "x \<in> set (reported st)"
  from try_entry_keeps [of pf opts entry st] Normal have "reported st1 = reported st" by simp
  with x Normal show ?thesis by (simp add: set_entry_def)
next
  case (Return st1)
  assume x: "x \<in> set (reported st)"
  from try_entry_keeps [of pf opts entry st] Return have "reported st1 = reported st" by simp
  with x Return show ?thesis by (simp add: set_entry_def)
qed

lemma set_entries_keeps:
  "x \<in> set (reported st) \<Longrightarrow> x \<in> set (reported (final_state (set_entries pf opts entries st)))"
proof (induction entries arbitrary: st)
  case Nil
  then show ?case by simp
next
  case (Cons entry entries)
  from set_entry_keeps [OF Cons.prems, of pf opts entry]
  have k: "x \<in> set (reported (final_state (set_entry pf opts entry st)))" .
  show ?case
  proof (cases "set_entry pf opts entry st")
    case (Normal st1)
    with k Cons.IH [of st1] show ?thesis by simp
  next
    case (Return st1)
    with k show ?thesis by simp
  next
    case (Throw e st1)
    with k show ?thesis by simp
  qed
qed

lemma set_entries_append:
  "set_entries pf opts pre st = Normal s \<Longrightarrow>
   set_entries pf opts (pre @ rest) st = set_entries pf opts rest s"
proof (induction pre arbitrary: st)
  case Nil
  then show ?case by simp
next
  case (Cons entry pre)
  then show ?case by (cases "set_entry pf opts entry st") simp_all
qed

text \<open>
  An error that the \<^verbatim>\<open>try\<close> of some entry throws while the loop runs is among the errors
  handed to \<^verbatim>\<open>onError\<close> when the whole call has returned.
\<close>

lemma setAttribute_from_delivers:
  assumes cb: "callbacks_do_not_throw opts"
    and pre: "set_entries pf opts pre (st\<lparr>settedAttributes := []\<rparr>) = Normal s"
    and thr: "try_entry pf opts entry s = Throw e s1"
  shows "e \<in> set (reported (final_state
           (setAttribute_from pf opts HTMLElement (AttrObject (pre @ entry # later)) st)))"
proof -
  let ?st0 = "st\<lparr>settedAttributes := []\<rparr>"
  have one: "e \<in> set (reported (final_state (set_entry pf opts entry s)))"
    using set_entry_reports [OF cb thr] by simp
  obtain s2 where s2: "set_entry pf opts entry s = Normal s2"
    using thr cb
    by (auto simp add: set_entry_def call_onError_def callbacks_do_not_throw_def Let_def
             split: option.splits)
  with one have in2: "e \<in> set (reported s2)" by simp
  have loop: "set_entries pf opts (pre @ entry # later) ?st0 = set_entries pf opts later s2"
    using set_entries_append [OF pre, of "entry # later"] s2 by simp
  have in3: "e \<in> set (reported (final_state (set_entries pf opts later s2)))"
    by (rule set_entries_keeps [OF in2])
  show ?thesis
  proof (cases "set_entries pf opts later s2")
    case (Normal s3)
    with in3 loop show ?thesis
      by (simp add: setAttribute_from_def try_setAttribute_def)
         (cases "call_onAttributeSet opts s3";
          use call_onAttributeSet_keeps [of e s3 opts] in
            \<open>simp add: call_onError_keeps\<close>)
  next
    case (Return s3)
    with in3 loop show ?thesis
      by (simp add: setAttribute_from_def try_setAttribute_def)
  next
    case (Throw x s3)
    with in3 loop show ?thesis
      by (simp add: setAttribute_from_def try_setAttribute_def call_onError_keeps)
  qed
qed

text \<open>
  C10, as amended. For every element and attribute argument, and for every options
  argument other than \<^verbatim>\<open>null\<close> (left out, or an object whose callbacks \<^verbatim>\<open>onError\<close>,
  \<^verbatim>\<open>onAttributeSet\<close>, \<^verbatim>\<open>validate\<close>, \<^verbatim>\<open>transformValue\<close> do not throw), \<^verbatim>\<open>setAttribute\<close>
  returns without throwing. A target that is not an HTMLElement hands the TypeError to
  \<^verbatim>\<open>onError\<close>, a non-object attribute argument hands the Error to \<^verbatim>\<open>onError\<close>, and
  whatever the \<^verbatim>\<open>try\<close> of an entry throws while the loop over the attribute object runs
  (a failed validation, a failing set) is among the errors handed to \<^verbatim>\<open>onError\<close> when
  the call has returned; the default \<^verbatim>\<open>onError\<close> writes the error to the console.
\<close>

theorem setAttribute_never_throws:
  assumes "callbacks_do_not_throw opts"
  shows "returns_normally (setAttribute pf element attribute (OptionsObject opts) st)
    \<and> returns_normally (setAttribute pf element attribute OptionsUndefined st)
    \<and> reported (final_state (setAttribute pf NotAnElement attribute (OptionsObject opts) st)) =
        reported st @ [TypeError ''Provided element is not a valid HTMLElement.'']
    \<and> reported (final_state (setAttribute pf HTMLElement AttrNotObject (OptionsObject opts) st)) =
        reported st @ [Error ''Attribute name must be a non-empty string.'']
    \<and> (\<forall>pre entry later s e s1.
          set_entries pf opts pre (st\<lparr>settedAttributes := []\<rparr>) = Normal s \<longrightarrow>
          try_entry pf opts entry s = Throw e s1 \<longrightarrow>
          e \<in> set (reported (final_state
                (setAttribute pf HTMLElement (AttrObject (pre @ entry # later))
                   (OptionsObject opts) st))))
    \<and> console (final_state (setAttribute pf NotAnElement attribute OptionsUndefined st)) =
        console st @ [LoggedError (TypeError ''Provided element is not a valid HTMLElement.'')]"
proof -
  have d: "onError (default_options :: 'a SetAttributesOptions) = None"
    by (simp add: default_options_def)
  have c: "console (final_state (setAttribute pf NotAnElement attribute OptionsUndefined st)) =
        console st @ [LoggedError (TypeError ''Provided element is not a valid HTMLElement.'')]"
    using call_onError_console [OF d]
    by (simp add: setAttribute_def setAttribute_from_def try_setAttribute_def)
  have l: "\<forall>pre entry later s e s1.
          set_entries pf opts pre (st\<lparr>settedAttributes := []\<rparr>) = Normal s \<longrightarrow>
          try_entry pf opts entry s = Throw e s1 \<longrightarrow>
          e \<in> set (reported (final_state
                (setAttribute pf HTMLElement (AttrObject (pre @ entry # later))
                   (OptionsObject opts) st)))"
    using setAttribute_from_delivers [OF assms] by (simp add: setAttribute_def)
  from c l setAttribute_from_normal [OF assms] setAttribute_from_not_element [OF assms]
    setAttribute_from_not_object [OF assms]
    setAttribute_from_normal [OF default_options_do_not_throw]
  show ?thesis by (simp add: setAttribute_def)
qed

theorem setAttribute_never_throws_witness:
  "callbacks_do_not_throw strict_options
   \<and> reported (final_state
        (setAttribute string_platform HTMLElement
           (AttrObject [(''alt'', ''sky''), (''src'', []), (''title'', ''t'')])
           (OptionsObject strict_options) empty_dom)) =
       [Error ''Validation failed for attribute: src with value: '']
   \<and> returns_normally
        (setAttribute string_platform HTMLElement
           (AttrObject [(''alt'', ''sky''), (''src'', []), (''title'', ''t'')])
           (OptionsObject strict_options) empty_dom)
   \<and> settedAttributes (final_state
        (setAttribute string_platform HTMLElement
           (AttrObject [(''alt'', ''sky''), (''src'', []), (''title'', ''t'')])
           (OptionsObject strict_options) empty_dom)) =
       [(''alt'', ''sky''), (''title'', ''t'')]
   \<and> console (final_state
        (setAttribute string_platform NotAnElement (AttrObject [(''src'', ''blob:a'')])
           OptionsUndefined empty_dom)) =
       [LoggedError (TypeError ''Provided element is not a valid HTMLElement.'')]"
proof -
  have h: "callbacks_do_not_throw strict_options"
    by (simp add: callbacks_do_not_throw_def strict_options_def default_options_def)
  have run: "final_state
        (setAttribute string_platform HTMLElement
           (AttrObject [(''alt'', ''sky''), (''src'', []), (''title'', ''t'')])
           (OptionsObject strict_options) empty_dom) =
     \<lparr>el_attributes = [''alt'' \<mapsto> ''sky'', ''title'' \<mapsto> ''t''], el_dataset = Map.empty,
      settedAttributes = [(''alt'', ''sky''), (''title'', ''t'')],
      console = [LoggedError (Error ''Validation failed for attribute: src with value: '')],
      reported = [Error ''Validation failed for attribute: src with value: ''],
      notified = [[(''alt'', ''sky''), (''title'', ''t'')]]\<rparr>"
    by (simp add: setAttribute_def setAttribute_from_def try_setAttribute_def set_entry_def
          try_entry_def store_value_def log_set_def shouldSetAttribute_def is_data_name_def
          call_onError_def call_onAttributeSet_def strict_options_def default_options_def
          string_platform_def empty_dom_def Let_def)
  have e: "console (empty_dom :: string dom_state) = []"
    by (simp add: empty_dom_def)
  show ?thesis
    using h e
      setAttribute_never_throws [OF h, of string_platform HTMLElement
        "AttrObject [(''alt'', ''sky''), (''src'', []), (''title'', ''t'')]" empty_dom]
      setAttribute_never_throws [OF h, of string_platform HTMLElement
        "AttrObject [(''src'', ''blob:a'')]" empty_dom]
    by (simp add: run)
qed

text \<open>
  The claim as stated fails: with \<^verbatim>\<open>null\<close> as the options argument and no callback
  involved, the destructuring throws before the \<^verbatim>\<open>try\<close> is entered.
\<close>

theorem setAttribute_null_options_counterexample:
  "setAttribute string_platform HTMLElement (AttrObject [(''src'', ''blob:a'')]) OptionsNull
     empty_dom =
     Throw (TypeError ''Cannot destructure property of options as it is null.'') empty_dom
   \<and> \<not> returns_normally
        (setAttribute string_platform HTMLElement (AttrObject [(''src'', ''blob:a'')])
           OptionsNull empty_dom)"
  by (simp add: setAttribute_def)

subsection \<open>Properties of the two transports\<close>

lemma set_headers_permissive: "permissive pf \<Longrightarrow> snd (set_headers pf hs) = None"
  by (induction hs) (simp_all add: permissive_def Let_def)

lemma formatData_permissive:
  "permissive pf \<Longrightarrow> \<exists>b. formatDataForFetch pf d hs = Inr b"
proof -
  assume p: "permissive pf"
  show ?thesis
  proof (cases d)
    case None
    then show ?thesis by (simp add: formatDataForFetch_def)
  next
    case (Some rd)
    show ?thesis
    proof (cases rd)
      case (DataObject obj)
      from p obtain t where "json_stringify pf obj = Inr t"
        unfolding permissive_def by blast
      with Some DataObject show ?thesis by (simp add: formatDataForFetch_def)
    qed (simp_all add: Some formatDataForFetch_def)
  qed
qed

lemma ajaxXHR_send_permissive: "permissive pf \<Longrightarrow> snd (ajaxXHR_send pf options) = None"
proof -
  assume p: "permissive pf"
  from p have o: "xhr_open pf (ajax_method options) (url options) = None"
    by (simp add: permissive_def)
  from formatData_permissive [OF p] obtain b
    where b: "formatDataForFetch pf (data options) (headers options) = Inr b" by blast
  show ?thesis
    using o b set_headers_permissive [OF p]
    by (simp add: ajaxXHR_send_def formatDataForXHR_def Let_def split: option.splits)
qed

lemma ajaxXHR_send_opens:
  "\<exists>rest. fst (ajaxXHR_send pf options) = XhrOpen (ajax_method options) (url options) # rest"
  by (simp add: ajaxXHR_send_def Let_def split: option.splits sum.splits)

lemma ajaxXHR_send_started:
  "snd (ajaxXHR_send pf options) = None \<Longrightarrow> RequestStarted \<in> set (fst (ajaxXHR_send pf options))"
  by (auto simp add: ajaxXHR_send_def Let_def split: option.splits sum.splits)

lemma ajaxXHR_returned:
  "returned (ajaxXHR fuel pf options) =
     (case snd (ajaxXHR_send pf options) of None \<Rightarrow> ReturnsUndefined | Some e \<Rightarrow> Throws e)"
  by (simp add: ajaxXHR_def Let_def split: option.splits)

lemma ajaxXHR_events_prefix:
  "\<exists>rest. events (ajaxXHR fuel pf options) = fst (ajaxXHR_send pf options) @ rest"
  by (simp add: ajaxXHR_def Let_def split: option.splits)








lemma browser_with_permissive: "permissive (browser_with answers)"
  by (simp add: permissive_def browser_with_def)








lemma ajaxXHR_send_retries [simp]:
  "ajaxXHR_send pf (options\<lparr>retries := r\<rparr>) = ajaxXHR_send pf options"
  by (simp add: ajaxXHR_send_def responseType_set_def timeout_set_def Let_def
           split: option.splits sum.splits)





text \<open>One turn of the chain of attempts.\<close>

lemma xhr_after_send_retry:
  assumes "xhr_end pf options k = Some ended" and "retryRequest options (snd ended)"
    and "snd (ajaxXHR_send pf options) = None"
  shows "xhr_after_send (Suc fuel) pf options k =
     (onprogress pf options k @ fst ended
        @ [SetTimeout (retryDelay_or_1000 options),
           ConsoleWarn (''Retrying request... (1/'' @ show_retries (retries options) @ '')'')]
        @ fst (ajaxXHR_send pf options)
        @ fst (xhr_after_send fuel pf
                 (options\<lparr>retries := Some (retries_minus_1 (retries options))\<rparr>) (Suc k)),
      snd (xhr_after_send fuel pf
             (options\<lparr>retries := Some (retries_minus_1 (retries options))\<rparr>) (Suc k)))"
  using assms by (simp add: xhr_after_send.simps Let_def)

lemma xhr_after_send_stop:
  assumes "xhr_end pf options k = Some ended" and "\<not> retryRequest options (snd ended)"
  shows "xhr_after_send (Suc fuel) pf options k = (onprogress pf options k @ fst ended, True)"
  using assms by (simp add: xhr_after_send.simps)


declare xhr_after_send.simps [simp del]

text \<open>Retries on a server that always fails.\<close>

lemma xhr_end_always:
  "xhr_end (browser_with (always status body)) options k =
     Some (in_handler (onload (browser_with (always status body)) options status ''status'' body),
           status)"
  by (simp add: xhr_end_def browser_with_def always_def)

lemma onload_failed_requests:
  "\<not> (200 \<le> status \<and> status < 300) \<Longrightarrow>
   count_requests (in_handler (onload pf options status statusText body)) = 0"
  by (auto simp add: count_requests_def in_handler_def onload_def handleError_def
           split: option.splits)

lemma onprogress_browser_with [simp]: "onprogress (browser_with answers) options k = []"
  by (simp add: onprogress_def browser_with_def split: option.splits)

lemma count_requests_append [simp]:
  "count_requests (xs @ ys) = count_requests xs + count_requests ys"
  by (simp add: count_requests_def)

lemma count_requests_timer [simp]:
  "count_requests [SetTimeout d, ConsoleWarn w] = 0"
  by (simp add: count_requests_def)

lemma count_requests_failed:
  "count_requests (in_handler (onload pf options 500 statusText body)) = 0"
  using onload_failed_requests [of 500 pf options statusText body] by simp

lemma count_requests_send_plain:
  "count_requests (fst (ajaxXHR_send (browser_with answers) (plain_get\<lparr>retries := r\<rparr>))) = 1"
  "snd (ajaxXHR_send (browser_with answers) (plain_get\<lparr>retries := r\<rparr>)) = None"
  by (simp_all add: ajaxXHR_send_def browser_with_def plain_get_def no_options_def
        formatDataForXHR_def formatDataForFetch_def responseType_set_def timeout_set_def
        count_requests_def Let_def)

lemma retries_unbounded:
  "r = None \<or> r = Some NaN \<Longrightarrow>
   count_requests (fst (xhr_after_send n (browser_with (always 500 [])) (plain_get\<lparr>retries := r\<rparr>) k)) = n
   \<and> \<not> snd (xhr_after_send n (browser_with (always 500 [])) (plain_get\<lparr>retries := r\<rparr>) k)"
proof (induction n arbitrary: r k)
  case 0
  then show ?case by (simp add: xhr_after_send.simps count_requests_def)
next
  case (Suc n)
  let ?pf = "browser_with (always 500 [])"
  let ?o = "plain_get\<lparr>retries := r\<rparr>"
  have retry: "retryRequest ?o 500"
    using Suc.prems by (auto simp add: retryRequest_def retries_or_1_def)
  have again: "?o\<lparr>retries := Some (retries_minus_1 (retries ?o))\<rparr> = plain_get\<lparr>retries := Some NaN\<rparr>"
    using Suc.prems by (auto simp add: retries_minus_1_def)
  have step: "xhr_after_send (Suc n) ?pf ?o k =
     (onprogress ?pf ?o k @ in_handler (onload ?pf ?o 500 ''status'' [])
        @ [SetTimeout (retryDelay_or_1000 ?o),
           ConsoleWarn (''Retrying request... (1/'' @ show_retries (retries ?o) @ '')'')]
        @ fst (ajaxXHR_send ?pf ?o)
        @ fst (xhr_after_send n ?pf (plain_get\<lparr>retries := Some NaN\<rparr>) (Suc k)),
      snd (xhr_after_send n ?pf (plain_get\<lparr>retries := Some NaN\<rparr>) (Suc k)))"
    using xhr_after_send_retry [OF xhr_end_always, of ?o 500 "[]" n k] retry
      count_requests_send_plain(2) [of "always 500 []" r] again
    by simp
  from Suc.IH [of "Some NaN" "Suc k"]
  have ih: "count_requests (fst (xhr_after_send n ?pf (plain_get\<lparr>retries := Some NaN\<rparr>) (Suc k))) = n"
       "\<not> snd (xhr_after_send n ?pf (plain_get\<lparr>retries := Some NaN\<rparr>) (Suc k))"
    by simp_all
  show ?case
    by (simp only: step fst_conv snd_conv count_requests_append count_requests_timer
          onprogress_browser_with ih count_requests_send_plain(1) count_requests_failed)
       (simp add: count_requests_def)
qed

lemma retries_counted:
  "count_requests (fst (xhr_after_send (Suc (Suc n)) (browser_with (always 500 []))
       (plain_get\<lparr>retries := Some (Num (int n))\<rparr>) k)) = Suc n
   \<and> snd (xhr_after_send (Suc (Suc n)) (browser_with (always 500 []))
       (plain_get\<lparr>retries := Some (Num (int n))\<rparr>) k)"
proof (induction n arbitrary: k)
  case 0
  let ?pf = "browser_with (always 500 [])"
  let ?o = "plain_get\<lparr>retries := Some (Num 0)\<rparr>"
  let ?o1 = "plain_get\<lparr>retries := Some (Num (- 1))\<rparr>"
  have retry: "retryRequest ?o 500"
    by (simp add: retryRequest_def retries_or_1_def)
  have stop: "\<not> retryRequest ?o1 500"
    by (simp add: retryRequest_def retries_or_1_def)
  have again: "?o\<lparr>retries := Some (retries_minus_1 (retries ?o))\<rparr> = ?o1"
    by (simp add: retries_minus_1_def)
  have last: "xhr_after_send (Suc 0) ?pf ?o1 (Suc k) =
      (onprogress ?pf ?o1 (Suc k) @ in_handler (onload ?pf ?o1 500 ''status'' []), True)"
    using xhr_after_send_stop [OF xhr_end_always] stop by simp
  have step: "xhr_after_send (Suc (Suc 0)) ?pf ?o k =
     (onprogress ?pf ?o k @ in_handler (onload ?pf ?o 500 ''status'' [])
        @ [SetTimeout (retryDelay_or_1000 ?o),
           ConsoleWarn (''Retrying request... (1/'' @ show_retries (retries ?o) @ '')'')]
        @ fst (ajaxXHR_send ?pf ?o)
        @ fst (xhr_after_send (Suc 0) ?pf ?o1 (Suc k)),
      snd (xhr_after_send (Suc 0) ?pf ?o1 (Suc k)))"
    using xhr_after_send_retry [OF xhr_end_always, of ?o 500 "[]" "Suc 0" k] retry
      count_requests_send_plain(2) [of "always 500 []" "Some (Num 0)"] again
    by simp
  show ?case
    by (simp only: int_ops(1) step last fst_conv snd_conv count_requests_append
          count_requests_timer onprogress_browser_with count_requests_send_plain(1) count_requests_failed)
       (simp add: count_requests_def)
next
  case (Suc n)
  let ?pf = "browser_with (always 500 [])"
  let ?o = "plain_get\<lparr>retries := Some (Num (int (Suc n)))\<rparr>"
  let ?o1 = "plain_get\<lparr>retries := Some (Num (int n))\<rparr>"
  have retry: "retryRequest ?o 500"
    by (simp add: retryRequest_def retries_or_1_def)
  have again: "?o\<lparr>retries := Some (retries_minus_1 (retries ?o))\<rparr> = ?o1"
    by (simp add: retries_minus_1_def)
  have step: "xhr_after_send (Suc (Suc (Suc n))) ?pf ?o k =
     (onprogress ?pf ?o k @ in_handler (onload ?pf ?o 500 ''status'' [])
        @ [SetTimeout (retryDelay_or_1000 ?o),
           ConsoleWarn (''Retrying request... (1/'' @ show_retries (retries ?o) @ '')'')]
        @ fst (ajaxXHR_send ?pf ?o)
        @ fst (xhr_after_send (Suc (Suc n)) ?pf ?o1 (Suc k)),
      snd (xhr_after_send (Suc (Suc n)) ?pf ?o1 (Suc k)))"
    using xhr_after_send_retry [OF xhr_end_always, of ?o 500 "[]" "Suc (Suc n)" k] retry
      count_requests_send_plain(2) [of "always 500 []" "Some (Num (int (Suc n)))"] again
    by (simp del: xhr_after_send.simps)
  from Suc.IH [of "Suc k"]
  have ih: "count_requests (fst (xhr_after_send (Suc (Suc n)) ?pf ?o1 (Suc k))) = Suc n"
       "snd (xhr_after_send (Suc (Suc n)) ?pf ?o1 (Suc k))"
    by simp_all
  show ?case
    by (simp only: step fst_conv snd_conv count_requests_append count_requests_timer
          onprogress_browser_with ih count_requests_send_plain(1) count_requests_failed)
       (simp add: count_requests_def)
qed

lemma plain_get_retries_None: "plain_get\<lparr>retries := None\<rparr> = plain_get"
  by (simp add: plain_get_def no_options_def)

lemma count_requests_send_plain_get:
  "count_requests (fst (ajaxXHR_send (browser_with answers) plain_get)) = 1"
  using count_requests_send_plain(1) [of answers None] by (simp add: plain_get_retries_None)

lemma ajax_plain_xhr:
  "ajax fuel (browser_with answers) (plain_get\<lparr>retries := r\<rparr>) =
     \<lparr>returned = ReturnsUndefined,
      events = fst (ajaxXHR_send (browser_with answers) (plain_get\<lparr>retries := r\<rparr>))
               @ fst (xhr_after_send fuel (browser_with answers) (plain_get\<lparr>retries := r\<rparr>) 1),
      quiescent = snd (xhr_after_send fuel (browser_with answers) (plain_get\<lparr>retries := r\<rparr>) 1)\<rparr>"
proof -
  have "useFetch (plain_get\<lparr>retries := r\<rparr>) \<noteq> Some True"
    by (simp add: plain_get_def no_options_def)
  then show ?thesis
    using count_requests_send_plain(2) [of answers r]
    by (simp add: ajax_def ajaxXHR_def Let_def)
qed

text \<open>
  C2. On the code the claim does not hold. Against a server that answers every request
  with status 500, a call with \<^verbatim>\<open>retries = N\<close> puts \<open>N + 2\<close> requests on the network
  before the chain of attempts ends (two requests for \<^verbatim>\<open>retries: 0\<close>), and a call
  without \<^verbatim>\<open>retries\<close> never stops: however many attempts are followed, one more
  request has been made and the chain has not ended.
\<close>

theorem retries_exceed_budget:
  "(\<forall>n. count_requests (events (ajax (Suc (Suc n)) (browser_with (always 500 []))
            (plain_get\<lparr>retries := Some (Num (int n))\<rparr>))) = n + 2
        \<and> quiescent (ajax (Suc (Suc n)) (browser_with (always 500 []))
            (plain_get\<lparr>retries := Some (Num (int n))\<rparr>)))
   \<and> (\<forall>n. count_requests (events (ajax n (browser_with (always 500 [])) plain_get)) = Suc n
        \<and> \<not> quiescent (ajax n (browser_with (always 500 [])) plain_get))"
proof -
  have a: "\<forall>n. count_requests (events (ajax (Suc (Suc n)) (browser_with (always 500 []))
            (plain_get\<lparr>retries := Some (Num (int n))\<rparr>))) = n + 2
        \<and> quiescent (ajax (Suc (Suc n)) (browser_with (always 500 []))
            (plain_get\<lparr>retries := Some (Num (int n))\<rparr>))"
    using retries_counted [of _ 1]
    by (simp add: ajax_plain_xhr count_requests_send_plain_get)
  have b: "\<forall>n. count_requests (events (ajax n (browser_with (always 500 []))
              (plain_get\<lparr>retries := None\<rparr>))) = Suc n
        \<and> \<not> quiescent (ajax n (browser_with (always 500 [])) (plain_get\<lparr>retries := None\<rparr>))"
    using retries_unbounded [of None _ 1]
    by (simp add: ajax_plain_xhr count_requests_send_plain_get)
  from a b show ?thesis by (simp add: plain_get_retries_None)
qed

subsection \<open>No validation, no defaults\<close>

lemma ajaxXHR_first:
  "\<exists>rest. events (ajaxXHR fuel pf options) = XhrOpen (ajax_method options) (url options) # rest"
  using ajaxXHR_send_opens [of pf options] ajaxXHR_events_prefix [of fuel pf options]
  by auto

lemma ajaxXHR_started:
  "permissive pf \<Longrightarrow> RequestStarted \<in> set (events (ajaxXHR fuel pf options))"
  using ajaxXHR_send_started [OF ajaxXHR_send_permissive, of pf options]
    ajaxXHR_events_prefix [of fuel pf options]
  by auto

lemma ajaxFetch_first:
  assumes "permissive pf"
  shows "\<exists>cfg rest. events (ajaxFetch pf options) = Fetch (url options) cfg # rest
           \<and> fc_method cfg = ajax_method options \<and> fc_signal cfg = abortSignal options"
proof -
  from formatData_permissive [OF assms] obtain b
    where "formatDataForFetch pf (data options) (headers options) = Inr b" by blast
  then show ?thesis
    by (simp add: ajaxFetch_def fetch_caught_def Let_def
          split: fetch_outcome.splits sum.splits option.splits)
qed

lemma ajaxFetch_started:
  assumes "permissive pf" and "abortSignal options \<noteq> Some AbortedBeforeFetch"
  shows "RequestStarted \<in> set (events (ajaxFetch pf options))"
proof -
  from formatData_permissive [OF assms(1)] obtain b
    where "formatDataForFetch pf (data options) (headers options) = Inr b" by blast
  moreover have "fst (fetch pf (abortSignal options))"
    using assms(2) by (simp add: fetch_def split: option.splits abort_signal.splits)
  ultimately show ?thesis
    by (simp add: ajaxFetch_def fetch_caught_def Let_def
          split: fetch_outcome.splits sum.splits option.splits)
qed

text \<open>
  C8, as amended. \<^verbatim>\<open>ajax\<close> validates nothing: with neither \<^verbatim>\<open>url\<close> nor \<^verbatim>\<open>method\<close> in
  the configuration the call goes straight to the transport that \<^verbatim>\<open>useFetch\<close> selects.
  On the XMLHttpRequest transport the first thing that happens is
  \<^verbatim>\<open>xhr.open(undefined, undefined)\<close>, and on a browser that accepts it the request is
  sent and the caller gets \<^verbatim>\<open>undefined\<close> back; on the fetch transport the first thing
  that happens is \<^verbatim>\<open>fetch(undefined, ...)\<close>, and the request goes out unless the signal
  was already aborted. No configuration error is raised by the module.
\<close>

theorem ajax_does_not_validate:
  assumes "ajax_method options = None" and "url options = None"
  shows "(useFetch options \<noteq> Some True \<longrightarrow>
            (\<exists>rest. events (ajax fuel pf options) = XhrOpen None None # rest)
            \<and> (permissive pf \<longrightarrow>
                 RequestStarted \<in> set (events (ajax fuel pf options))
                 \<and> returned (ajax fuel pf options) = ReturnsUndefined))
     \<and> (useFetch options = Some True \<longrightarrow> permissive pf \<longrightarrow>
            (\<exists>cfg rest. events (ajax fuel pf options) = Fetch None cfg # rest
                \<and> fc_method cfg = None)
            \<and> (abortSignal options \<noteq> Some AbortedBeforeFetch \<longrightarrow>
                 RequestStarted \<in> set (events (ajax fuel pf options))))"
proof -
  have x: "useFetch options \<noteq> Some True \<longrightarrow>
            (\<exists>rest. events (ajax fuel pf options) = XhrOpen None None # rest)
            \<and> (permissive pf \<longrightarrow>
                 RequestStarted \<in> set (events (ajax fuel pf options))
                 \<and> returned (ajax fuel pf options) = ReturnsUndefined)"
    using ajaxXHR_first [of fuel pf options] ajaxXHR_started [of pf fuel options] assms
    by (auto simp add: ajax_def ajaxXHR_returned ajaxXHR_send_permissive)
  have f: "useFetch options = Some True \<longrightarrow> permissive pf \<longrightarrow>
            (\<exists>cfg rest. events (ajax fuel pf options) = Fetch None cfg # rest
                \<and> fc_method cfg = None)
            \<and> (abortSignal options \<noteq> Some AbortedBeforeFetch \<longrightarrow>
                 RequestStarted \<in> set (events (ajax fuel pf options)))"
    using ajaxFetch_first [of pf options] ajaxFetch_started [of pf options] assms
    by (auto simp add: ajax_def)
  from x f show ?thesis by blast
qed

theorem ajax_does_not_validate_witness:
  "ajax_method (no_options :: string AjaxOptions) = None
   \<and> url (no_options :: string AjaxOptions) = None
   \<and> events (ajax 1 (browser_with (always 200 ''ok'')) no_options) =
       [XhrOpen None None, XhrSend None, RequestStarted]
   \<and> returned (ajax 1 (browser_with (always 200 ''ok'')) no_options) = ReturnsUndefined"
proof -
  have h: "ajax_method (no_options :: string AjaxOptions) = None"
          "url (no_options :: string AjaxOptions) = None"
    by (simp_all add: no_options_def)
  have run: "events (ajax 1 (browser_with (always 200 ''ok'')) no_options) =
       [XhrOpen None None, XhrSend None, RequestStarted]"
    by (simp add: ajax_def ajaxXHR_def ajaxXHR_send_def xhr_after_send.simps xhr_end_def
          onload_def onprogress_def in_handler_def retryRequest_def formatDataForXHR_def
          formatDataForFetch_def
          responseType_set_def timeout_set_def no_options_def browser_with_def always_def
          Let_def)
  show ?thesis
    using h run browser_with_permissive [of "always 200 ''ok''"]
      ajax_does_not_validate [OF h, of 1 "browser_with (always 200 ''ok'')"]
    by (simp add: no_options_def)
qed

text \<open>
  The claim as stated fails: the call with the empty configuration reaches the transport,
  and a request is put on the network.
\<close>

theorem ajax_empty_config_counterexample:
  "events (ajax 1 (browser_with (always 200 ''ok'')) (no_options :: string AjaxOptions)) =
     [XhrOpen None None, XhrSend None, RequestStarted]
   \<and> count_requests (events (ajax 1 (browser_with (always 200 ''ok''))
        (no_options :: string AjaxOptions))) = 1"
  by (simp add: ajax_def ajaxXHR_def ajaxXHR_send_def xhr_after_send.simps xhr_end_def
        onload_def onprogress_def in_handler_def retryRequest_def formatDataForXHR_def
          formatDataForFetch_def
        responseType_set_def timeout_set_def no_options_def browser_with_def always_def
        count_requests_def Let_def)





lemma deliveries_append [simp]: "deliveries (xs @ ys) = deliveries xs @ deliveries ys"
  by (simp add: deliveries_def)




lemma count_requests_Cons:
  "count_requests (ev # evs) = (if is_request ev then 1 else 0) + count_requests evs"
  by (simp add: count_requests_def)









subsection \<open>Properties of the query string and the wrappers\<close>





















subsection \<open>Properties of the fetch transport\<close>

lemma deliveries_Cons:
  "deliveries (ev # evs) = (if is_delivery ev then ev # deliveries evs else deliveries evs)"
  by (simp add: deliveries_def)

lemma deliveries_Nil [simp]: "deliveries [] = []"
  by (simp add: deliveries_def)

lemma deliveries_handleError:
  "deliveries (fst (handleError options err)) = [error_channel options err]"
  by (simp add: handleError_def error_channel_def deliveries_def split: option.splits)

lemma fetch_body_permissive:
  assumes "permissive pf"
  shows "\<exists>b. (if ajax_method options \<noteq> Some ''GET''
              then formatDataForFetch pf (data options) (headers options) else Inr None) = Inr b"
  using formatData_permissive [OF assms, of "data options" "headers options"] by auto

lemma fetch_rejected:
  assumes "permissive pf" and "snd (fetch pf (abortSignal options)) = FetchRejects e"
  shows "deliveries (events (ajaxFetch pf options)) = [error_channel options (Raised e)]"
    and "count_requests (events (ajaxFetch pf options)) =
           (if fst (fetch pf (abortSignal options)) then 1 else 0)"
proof -
  from fetch_body_permissive [OF assms(1), of options] obtain b
    where b: "(if ajax_method options \<noteq> Some ''GET''
              then formatDataForFetch pf (data options) (headers options) else Inr None) = Inr b"
    by blast
  show "deliveries (events (ajaxFetch pf options)) = [error_channel options (Raised e)]"
    using assms(2)
    by (simp add: ajaxFetch_def b fetch_caught_def Let_def deliveries_Cons deliveries_handleError)
  show "count_requests (events (ajaxFetch pf options)) =
           (if fst (fetch pf (abortSignal options)) then 1 else 0)"
    using assms(2)
    by (simp add: ajaxFetch_def b fetch_caught_def Let_def count_requests_Cons handleError_def
          count_requests_def split: option.splits)
qed




lemma fetch_at_most_one: "count_requests (events (ajaxFetch pf options)) \<le> 1"
  by (simp add: ajaxFetch_def fetch_caught_def handleError_def Let_def count_requests_def
        split: fetch_outcome.splits sum.splits option.splits)


subsection \<open>Properties of the first attempt on the XMLHttpRequest transport\<close>











text \<open>The XMLHttpRequest transport never reads the signal.\<close>

lemma xhr_parts_abortSignal [simp]:
  "ajaxXHR_send pf (options\<lparr>abortSignal := s\<rparr>) = ajaxXHR_send pf options"
  "xhr_end pf (options\<lparr>abortSignal := s\<rparr>) k = xhr_end pf options k"
  "onprogress pf (options\<lparr>abortSignal := s\<rparr>) k = onprogress pf options k"
  "retryRequest (options\<lparr>abortSignal := s\<rparr>) status = retryRequest options status"
  "retryDelay_or_1000 (options\<lparr>abortSignal := s\<rparr>) = retryDelay_or_1000 options"
  by (simp_all add: ajaxXHR_send_def xhr_end_def onprogress_def retryRequest_def
        retryDelay_or_1000_def onload_def onerror_def ontimeout_def handleError_def
        xhr_response_def responseType_set_def timeout_set_def Let_def
        split: option.splits sum.splits native_outcome.splits)

lemma xhr_after_send_abortSignal:
  "xhr_after_send fuel pf (options\<lparr>abortSignal := s\<rparr>) k = xhr_after_send fuel pf options k"
proof (induction fuel arbitrary: options k)
  case 0
  show ?case by (simp add: xhr_after_send.simps)
next
  case (Suc fuel)
  have c: "options\<lparr>abortSignal := s, retries := Some (retries_minus_1 (retries options))\<rparr> =
           options\<lparr>retries := Some (retries_minus_1 (retries options)), abortSignal := s\<rparr>"
    by simp
  from Suc.IH [of "options\<lparr>retries := Some (retries_minus_1 (retries options))\<rparr>" "Suc k"]
  show ?case
    by (simp add: xhr_after_send.simps c Let_def split: option.splits)
qed

lemma ajaxXHR_abortSignal:
  "ajaxXHR fuel pf (options\<lparr>abortSignal := s\<rparr>) = ajaxXHR fuel pf options"
  by (simp add: ajaxXHR_def xhr_after_send_abortSignal Let_def split: option.splits)

text \<open>
  C5, as amended. Only the fetch transport reads the cancellation token. With
  \<^verbatim>\<open>useFetch\<close> a call makes at most one request and has no retries; a token aborted
  before the call lets no request go out, a token aborted in flight ends the one request,
  and in both cases the one thing delivered is the AbortError, through the error callback
  or the console, never a network error. On the XMLHttpRequest transport the run of a
  call is the same whatever token its options carry.
\<close>

theorem abort_signal_on_fetch_only:
  "(useFetch options = Some True \<longrightarrow> count_requests (events (ajax fuel pf options)) \<le> 1)
   \<and> (useFetch options = Some True \<longrightarrow> permissive pf \<longrightarrow>
        abortSignal options = Some AbortedBeforeFetch \<longrightarrow>
        count_requests (events (ajax fuel pf options)) = 0
        \<and> deliveries (events (ajax fuel pf options)) =
            [error_channel options (Raised (DOMException ''AbortError''))])
   \<and> (useFetch options = Some True \<longrightarrow> permissive pf \<longrightarrow>
        abortSignal options = Some AbortedInFlight \<longrightarrow>
        count_requests (events (ajax fuel pf options)) = 1
        \<and> deliveries (events (ajax fuel pf options)) =
            [error_channel options (Raised (DOMException ''AbortError''))])
   \<and> (useFetch options \<noteq> Some True \<longrightarrow>
        ajax fuel pf (options\<lparr>abortSignal := s\<rparr>) = ajax fuel pf options)"
proof -
  have a: "useFetch options = Some True \<longrightarrow> count_requests (events (ajax fuel pf options)) \<le> 1"
    using fetch_at_most_one [of pf options] by (simp add: ajax_def)
  have b: "useFetch options = Some True \<longrightarrow> permissive pf \<longrightarrow>
        abortSignal options = Some AbortedBeforeFetch \<longrightarrow>
        count_requests (events (ajax fuel pf options)) = 0
        \<and> deliveries (events (ajax fuel pf options)) =
            [error_channel options (Raised (DOMException ''AbortError''))]"
    using fetch_rejected [of pf options "DOMException ''AbortError''"]
    by (simp add: ajax_def fetch_def)
  have c: "useFetch options = Some True \<longrightarrow> permissive pf \<longrightarrow>
        abortSignal options = Some AbortedInFlight \<longrightarrow>
        count_requests (events (ajax fuel pf options)) = 1
        \<and> deliveries (events (ajax fuel pf options)) =
            [error_channel options (Raised (DOMException ''AbortError''))]"
    using fetch_rejected [of pf options "DOMException ''AbortError''"]
    by (simp add: ajax_def fetch_def)
  have d: "useFetch options \<noteq> Some True \<longrightarrow>
        ajax fuel pf (options\<lparr>abortSignal := s\<rparr>) = ajax fuel pf options"
    by (simp add: ajax_def ajaxXHR_abortSignal)
  from a b c d show ?thesis by (intro conjI)
qed

theorem abort_signal_on_fetch_only_witness:
  "permissive (browser_with (always 200 ''ok''))
   \<and> events (ajax 1 (browser_with (always 200 ''ok''))
        (plain_get\<lparr>useFetch := Some True, abortSignal := Some AbortedBeforeFetch\<rparr>)) =
       [Fetch (Some ''/x'')
          \<lparr>fc_method = Some ''GET'', fc_headers = None, fc_body = None,
           fc_signal = Some AbortedBeforeFetch\<rparr>,
        ConsoleError (Raised (DOMException ''AbortError''))]
   \<and> deliveries (events (ajax 1 (browser_with (always 200 ''ok''))
        (plain_get\<lparr>useFetch := Some True, abortSignal := Some AbortedInFlight\<rparr>))) =
       [ConsoleError (Raised (DOMException ''AbortError''))]
   \<and> count_requests (events (ajax 1 (browser_with (always 200 ''ok''))
        (plain_get\<lparr>useFetch := Some True, abortSignal := Some AbortedInFlight\<rparr>))) = 1"
proof -
  let ?pf = "browser_with (always 200 ''ok'')"
  have run: "events (ajax 1 ?pf
        (plain_get\<lparr>useFetch := Some True, abortSignal := Some AbortedBeforeFetch\<rparr>)) =
       [Fetch (Some ''/x'')
          \<lparr>fc_method = Some ''GET'', fc_headers = None, fc_body = None,
           fc_signal = Some AbortedBeforeFetch\<rparr>,
        ConsoleError (Raised (DOMException ''AbortError''))]"
    by (simp add: ajax_def ajaxFetch_def fetch_def fetch_caught_def handleError_def
          plain_get_def no_options_def Let_def)
  have o: "useFetch (plain_get\<lparr>useFetch := Some True, abortSignal := Some AbortedInFlight\<rparr>) =
             Some True"
          "abortSignal (plain_get\<lparr>useFetch := Some True, abortSignal := Some AbortedInFlight\<rparr>) =
             Some AbortedInFlight"
          "error_channel (plain_get\<lparr>useFetch := Some True, abortSignal := Some AbortedInFlight\<rparr>)
             (Raised (DOMException ''AbortError'')) =
           ConsoleError (Raised (DOMException ''AbortError''))"
    by (simp_all add: plain_get_def no_options_def error_channel_def)
  have p: "permissive ?pf" by (rule browser_with_permissive)
  note t = abort_signal_on_fetch_only [where pf = "?pf" and fuel = 1 and options =
        "plain_get\<lparr>useFetch := Some True, abortSignal := Some AbortedInFlight\<rparr>",
        THEN conjunct2, THEN conjunct2, THEN conjunct1, rule_format, OF o(1) p o(2)]
  from run p t o(3) show ?thesis by simp
qed

text \<open>
  The claim as stated fails on the default transport: a call whose token was aborted
  before the call still sends its request, and after the answers with status 500 its
  retries follow, three requests in all for \<^verbatim>\<open>retries: 1\<close>.
\<close>

theorem abort_ignored_by_xhr_counterexample:
  "count_requests (events (ajax (Suc (Suc (Suc 0))) (browser_with (always 500 []))
      (plain_get\<lparr>retries := Some (Num 1), abortSignal := Some AbortedBeforeFetch\<rparr>))) = 3"
proof -
  have u: "useFetch (plain_get\<lparr>retries := Some (Num 1)\<rparr>) \<noteq> Some True"
    by (simp add: plain_get_def no_options_def)
  have "ajax (Suc (Suc (Suc 0))) (browser_with (always 500 []))
          (plain_get\<lparr>retries := Some (Num 1), abortSignal := Some AbortedBeforeFetch\<rparr>) =
        ajax (Suc (Suc (Suc 0))) (browser_with (always 500 [])) (plain_get\<lparr>retries := Some (Num 1)\<rparr>)"
    using u by (simp add: ajax_def ajaxXHR_abortSignal)
  then show ?thesis
    using retries_counted [of 1 1] count_requests_send_plain(1) [of "always 500 []" "Some (Num 1)"]
    by (simp add: ajax_plain_xhr)
qed








end
